theory Spec2Isabelle
  imports Complex_Main "HOL-Library.Word"
begin

unbundle bit_operations_syntax

section \<open>Throttle conditioning (ebike-controller/src/throttle.c)\<close>

text \<open>
  Conventions of the embedding.
  \<^item> A C \<^verbatim>\<open>float\<close> is modelled by a \<^typ>\<open>real\<close>: rounding, infinities and NaN are
    outside the model. The one place where this is visible in control flow is the division
    \<^verbatim>\<open>1.0f / (max - min)\<close>, which is \<open>0\<close> in HOL and an infinity in C when
    \<^verbatim>\<open>max == min\<close>; lemmas \<open>throttle_process_bounds_inv\<close> and
    \<open>throttle_divisors_positive\<close> below show that a channel keeps
    \<open>min \<le> 1.0 < 1.5 \<le> max\<close> once it is calibrated, so that the divisor is never zero
    on a run from power-up.
  \<^item> Global variables are fields of a record that every function takes and returns.
  \<^item> \<^verbatim>\<open>throttle.h\<close> is not among the sources. Its macros are the fields of
    \<open>throttle_params\<close>, a parameter of every function; its struct types are modelled
    with the fields that \<^verbatim>\<open>throttle.c\<close> uses.
  \<^item> \<^verbatim>\<open>startup_count\<close> is a \<^typ>\<open>nat\<close>: the code increments it only while it is at most
    \<^verbatim>\<open>THROTTLE_START_TIME\<close>, so it never wraps in an unsigned type that can hold
    \<^verbatim>\<open>THROTTLE_START_TIME + 1\<close>.
\<close>

subsection \<open>Constants\<close>

text \<open>Macros that \<^verbatim>\<open>throttle.c\<close> uses and \<^verbatim>\<open>project_parameters.h\<close> does not define.\<close>

record throttle_params =
  THROTTLE_START_TIME :: nat
  THROTTLE_START_DEADTIME :: nat
  THROTTLE_RANGE_LIMIT :: real
  THROTTLE_DROPOUT :: real
  THROTTLE_HYST_LOW :: real
  THROTTLE_HYST_HIGH :: real
  THROTTLE_SLEW_RATE :: real
  PAS_FILTER :: real

text \<open>\<^verbatim>\<open>project_parameters.h\<close>, lines 242, 243, 260 and 261.\<close>

definition THROTTLE_MIN_DEFAULT :: real where
  "THROTTLE_MIN_DEFAULT = 0.85"

definition THROTTLE_MAX_DEFAULT :: real where
  "THROTTLE_MAX_DEFAULT = 2.20"

definition THROTTLE_OUTPUT_MIN :: real where
  "THROTTLE_OUTPUT_MIN = 0.00"

definition THROTTLE_OUTPUT_MAX :: real where
  "THROTTLE_OUTPUT_MAX = 0.99"

text \<open>
  Modelled from the spec: values for the macros of \<^verbatim>\<open>throttle.h\<close>, used only to
  instantiate the theorems at concrete inputs. Start time, deadtime, range limit and
  dropout are the values in the commented-out lines 239 to 244 of
  \<^verbatim>\<open>project_parameters.h\<close> (500 discarded and 500 averaged samples in the spec);
  the slew rate is \<^verbatim>\<open>THROTTLE_RISE_DEFAULT\<close>; the two hysteresis thresholds are
  \<^verbatim>\<open>THROTTLE_HYST_DEFAULT\<close> apart. Nothing fixes the weight of the pedal-assist filter:
  it is taken as one quarter.
\<close>

definition default_params :: throttle_params where
  "default_params =
     \<lparr> THROTTLE_START_TIME = 1000,
       THROTTLE_START_DEADTIME = 500,
       THROTTLE_RANGE_LIMIT = 0.05,
       THROTTLE_DROPOUT = 0.72,
       THROTTLE_HYST_LOW = 0.025,
       THROTTLE_HYST_HIGH = 0.05,
       THROTTLE_SLEW_RATE = 0.0005,
       PAS_FILTER = 0.25 \<rparr>"

subsection \<open>State\<close>

text \<open>
  \<^verbatim>\<open>Biquad_Float_Type\<close>: the input \<^verbatim>\<open>X\<close> and the output \<^verbatim>\<open>Y\<close>; the coefficients and
  the delay line are the extension \<open>'z\<close> of the record.
\<close>

record Biquad_Float_Type =
  X :: real
  Y :: real

text \<open>\<^verbatim>\<open>Throttle_Analog_Type\<close>; \<^verbatim>\<open>min\<close> and \<^verbatim>\<open>max\<close> are \<open>thr_min\<close> and \<open>thr_max\<close> here.\<close>

record Throttle_Analog_Type =
  startup_count :: nat
  thr_min :: real
  thr_max :: real
  scale_factor :: real
  state :: nat

text \<open>The globals of lines 11, 12 and 17.\<close>

record 'z throttle_globals =
  Throttle_filt :: "'z Biquad_Float_Type_scheme"
  sThrottle :: Throttle_Analog_Type
  prev_output :: real

text \<open>
  The collaborators of \<open>throttle_process\<close> that are not among the sources: the filter step
  \<^verbatim>\<open>dfsl_biquadf\<close>, which reads \<^verbatim>\<open>X\<close> and the filter's own state and writes \<^verbatim>\<open>Y\<close>, is a
  parameter; the value that \<^verbatim>\<open>adcGetVref()\<close> returns is an input of the call.
\<close>

type_synonym 'z biquad_step = "'z Biquad_Float_Type_scheme \<Rightarrow> 'z Biquad_Float_Type_scheme"

subsection \<open>\<open>throttle_process\<close>, block by block\<close>

text \<open>Lines 102 to 106: one period of the startup sequence.\<close>

definition throttle_startup :: "throttle_params \<Rightarrow> real \<Rightarrow> Throttle_Analog_Type \<Rightarrow> Throttle_Analog_Type" where
  "throttle_startup P y thr =
     (let thr1 = thr\<lparr>startup_count := startup_count thr + 1\<rparr>
      in if startup_count thr1 \<ge> THROTTLE_START_DEADTIME P
         then thr1\<lparr>thr_min := thr_min thr1 + y\<rparr>
         else thr1)"

text \<open>Lines 113 to 132: the end of the startup sequence.\<close>

definition throttle_calibrate :: "throttle_params \<Rightarrow> real \<Rightarrow> Throttle_Analog_Type \<Rightarrow> Throttle_Analog_Type" where
  "throttle_calibrate P vref thr =
     (if startup_count thr = THROTTLE_START_TIME P then
        (let thr1 = thr\<lparr>startup_count := startup_count thr + 1\<rparr>;
             thr2 = thr1\<lparr>thr_min := thr_min thr1
                       / real_of_int (int (THROTTLE_START_TIME P) - int (THROTTLE_START_DEADTIME P))\<rparr>;
             thr3 = (if thr_min thr2 > 1.0 \<or> thr_min thr2 < 0.3
                     then thr2\<lparr>thr_min := THROTTLE_MIN_DEFAULT\<rparr> else thr2);
             thr4 = thr3\<lparr>thr_max := vref - THROTTLE_DROPOUT P\<rparr>;
             thr5 = (if thr_max thr4 > 3.0 \<or> thr_max thr4 < 1.5
                     then thr4\<lparr>thr_max := THROTTLE_MAX_DEFAULT\<rparr> else thr4)
         in thr5\<lparr>scale_factor := 1.0 / (thr_max thr5 - thr_min thr5)\<rparr>)
      else thr)"

text \<open>Line 135: the test that restarts the startup sequence.\<close>

definition throttle_below_min :: "throttle_params \<Rightarrow> real \<Rightarrow> Throttle_Analog_Type \<Rightarrow> bool" where
  "throttle_below_min P y thr \<longleftrightarrow> y < thr_min thr - THROTTLE_RANGE_LIMIT P"

text \<open>Lines 142 to 146: a new maximum.\<close>

definition throttle_new_max :: "throttle_params \<Rightarrow> real \<Rightarrow> Throttle_Analog_Type \<Rightarrow> Throttle_Analog_Type" where
  "throttle_new_max P y thr =
     (if y > thr_max thr + THROTTLE_RANGE_LIMIT P then
        (let thr1 = thr\<lparr>thr_max := y\<rparr>
         in thr1\<lparr>scale_factor := 1.0 / (thr_max thr1 - thr_min thr1)\<rparr>)
      else thr)"

text \<open>Lines 148 to 151: the command, clipped.\<close>

definition throttle_clip :: "real \<Rightarrow> real" where
  "throttle_clip c =
     (let c1 = (if c < THROTTLE_OUTPUT_MIN then THROTTLE_OUTPUT_MIN else c)
      in if c1 > THROTTLE_OUTPUT_MAX then THROTTLE_OUTPUT_MAX else c1)"

definition throttle_cmd :: "real \<Rightarrow> Throttle_Analog_Type \<Rightarrow> real" where
  "throttle_cmd y thr = throttle_clip ((y - thr_min thr) * scale_factor thr)"

text \<open>Lines 152 to 172: the hysteresis; the command and the channel after it.\<close>

definition throttle_hyst :: "throttle_params \<Rightarrow> real \<Rightarrow> Throttle_Analog_Type \<Rightarrow> real \<times> Throttle_Analog_Type" where
  "throttle_hyst P c thr =
     (if state thr \<noteq> 0 then
        (if c \<le> THROTTLE_HYST_LOW P then (0.0, thr\<lparr>state := 0\<rparr>) else (c, thr))
      else
        (if c \<ge> THROTTLE_HYST_HIGH P then (c, thr\<lparr>state := 1\<rparr>) else (0.0, thr)))"

text \<open>Lines 174 to 178: the rate limit on the way up.\<close>

definition throttle_slew :: "throttle_params \<Rightarrow> real \<Rightarrow> real \<Rightarrow> real" where
  "throttle_slew P prev c =
     (let delta = c - prev
      in if delta > THROTTLE_SLEW_RATE P then prev + THROTTLE_SLEW_RATE P else c)"

text \<open>
  Lines 83 to 182. The result is the returned command and the globals after the call;
  \<open>vref\<close> is what \<^verbatim>\<open>adcGetVref()\<close> returns during the call.
\<close>

definition throttle_process ::
  "throttle_params \<Rightarrow> 'z biquad_step \<Rightarrow> real \<Rightarrow> real \<Rightarrow> 'z throttle_globals
     \<Rightarrow> real \<times> 'z throttle_globals" where
  "throttle_process P dfsl_biquadf vref raw_voltage g =
     (let filt = dfsl_biquadf ((Throttle_filt g)\<lparr>X := raw_voltage\<rparr>);
          g1 = g\<lparr>Throttle_filt := filt\<rparr>;
          thr = sThrottle g1
      in if startup_count thr < THROTTLE_START_TIME P then
           (0.0, g1\<lparr>sThrottle := throttle_startup P (Y filt) thr\<rparr>)
         else
           (let thr1 = throttle_calibrate P vref thr
            in if throttle_below_min P (Y filt) thr1 then
                 (0.0, g1\<lparr>sThrottle := thr1\<lparr>startup_count := 0\<rparr>\<rparr>)
               else
                 (let thr2 = throttle_new_max P (Y filt) thr1;
                      (c, thr3) = throttle_hyst P (throttle_cmd (Y filt) thr2) thr2;
                      temp_cmd = throttle_slew P (prev_output g1) c
                  in (temp_cmd, g1\<lparr>sThrottle := thr3, prev_output := temp_cmd\<rparr>))))"

text \<open>
  The value of \<^verbatim>\<open>Throttle_filt.Y\<close> during a call, and the two ways a call past the
  startup sequence can go: back to the startup sequence, or through the regular
  processing of lines 140 to 180.
\<close>

definition filtered :: "'z biquad_step \<Rightarrow> real \<Rightarrow> 'z throttle_globals \<Rightarrow> real" where
  "filtered dfsl_biquadf raw_voltage g = Y (dfsl_biquadf ((Throttle_filt g)\<lparr>X := raw_voltage\<rparr>))"

definition in_startup :: "throttle_params \<Rightarrow> 'z throttle_globals \<Rightarrow> bool" where
  "in_startup P g \<longleftrightarrow> startup_count (sThrottle g) < THROTTLE_START_TIME P"

definition reenters_deadtime ::
  "throttle_params \<Rightarrow> 'z biquad_step \<Rightarrow> real \<Rightarrow> real \<Rightarrow> 'z throttle_globals \<Rightarrow> bool" where
  "reenters_deadtime P dfsl_biquadf vref raw_voltage g \<longleftrightarrow>
     \<not> in_startup P g \<and>
     throttle_below_min P (filtered dfsl_biquadf raw_voltage g)
       (throttle_calibrate P vref (sThrottle g))"

definition regular_call ::
  "throttle_params \<Rightarrow> 'z biquad_step \<Rightarrow> real \<Rightarrow> real \<Rightarrow> 'z throttle_globals \<Rightarrow> bool" where
  "regular_call P dfsl_biquadf vref raw_voltage g \<longleftrightarrow>
     \<not> in_startup P g \<and> \<not> reenters_deadtime P dfsl_biquadf vref raw_voltage g"

text \<open>
  The command of a call after the clipping of lines 150 and 151 (the clamped command) and
  after the hysteresis of lines 152 to 172 (the gated command).
\<close>

definition clamped_cmd ::
  "throttle_params \<Rightarrow> 'z biquad_step \<Rightarrow> real \<Rightarrow> real \<Rightarrow> 'z throttle_globals \<Rightarrow> real" where
  "clamped_cmd P dfsl_biquadf vref raw_voltage g =
     (let y = filtered dfsl_biquadf raw_voltage g
      in throttle_cmd y (throttle_new_max P y (throttle_calibrate P vref (sThrottle g))))"

definition gated_cmd ::
  "throttle_params \<Rightarrow> 'z biquad_step \<Rightarrow> real \<Rightarrow> real \<Rightarrow> 'z throttle_globals \<Rightarrow> real" where
  "gated_cmd P dfsl_biquadf vref raw_voltage g =
     (let y = filtered dfsl_biquadf raw_voltage g;
          thr2 = throttle_new_max P y (throttle_calibrate P vref (sThrottle g))
      in fst (throttle_hyst P (throttle_cmd y thr2) thr2))"

text \<open>
  A run of calls that all go through the regular processing with a clamped command
  strictly between the two hysteresis thresholds, and the latch after each call of a run.
\<close>

fun between_thresholds ::
  "throttle_params \<Rightarrow> 'z biquad_step \<Rightarrow> (real \<times> real) list \<Rightarrow> 'z throttle_globals \<Rightarrow> bool" where
  "between_thresholds P dfsl_biquadf [] g = True"
| "between_thresholds P dfsl_biquadf ((vref, raw_voltage) # ins) g =
     (regular_call P dfsl_biquadf vref raw_voltage g \<and>
      THROTTLE_HYST_LOW P < clamped_cmd P dfsl_biquadf vref raw_voltage g \<and>
      clamped_cmd P dfsl_biquadf vref raw_voltage g < THROTTLE_HYST_HIGH P \<and>
      between_thresholds P dfsl_biquadf ins (snd (throttle_process P dfsl_biquadf vref raw_voltage g)))"

fun latch_trace ::
  "throttle_params \<Rightarrow> 'z biquad_step \<Rightarrow> (real \<times> real) list \<Rightarrow> 'z throttle_globals \<Rightarrow> nat list" where
  "latch_trace P dfsl_biquadf [] g = []"
| "latch_trace P dfsl_biquadf ((vref, raw_voltage) # ins) g =
     (let g1 = snd (throttle_process P dfsl_biquadf vref raw_voltage g)
      in state (sThrottle g1) # latch_trace P dfsl_biquadf ins g1)"

text \<open>
  The slow periodic caller: one call per period, each with the supply reference and the
  raw voltage of that period. The result is the list of returned commands and the
  globals at the end.
\<close>

fun throttle_run ::
  "throttle_params \<Rightarrow> 'z biquad_step \<Rightarrow> (real \<times> real) list \<Rightarrow> 'z throttle_globals
     \<Rightarrow> real list \<times> 'z throttle_globals" where
  "throttle_run P dfsl_biquadf [] g = ([], g)"
| "throttle_run P dfsl_biquadf ((vref, raw_voltage) # ins) g =
     (let (r, g1) = throttle_process P dfsl_biquadf vref raw_voltage g;
          (rs, g2) = throttle_run P dfsl_biquadf ins g1
      in (r # rs, g2))"

subsection \<open>\<open>throttle_pas_process\<close>\<close>

text \<open>
  The pin numbers of \<^verbatim>\<open>pinconfig.h\<close> (not among the sources) are parameters, and the
  input data registers of the two ports are inputs of the call. \<^verbatim>\<open>Throttle_PAS_Type\<close> has
  the fields that \<^verbatim>\<open>throttle.c\<close> uses; \<^verbatim>\<open>last_reading\<close> is compared with a
  \<^verbatim>\<open>uint8_t\<close> and is a byte; the width \<open>'w\<close> of the unsigned \<^verbatim>\<open>time_counter\<close> is left
  open, and its increment wraps at that width. \<^verbatim>\<open>scale_factor\<close> is \<open>pas_scale_factor\<close> here.
\<close>

record pinconfig =
  ADC_THR1_PIN :: nat
  ADC_THR2_PIN :: nat

record gpio_inputs =
  ADC_I_VBUS_THR1_PORT_IDR :: "32 word"
  ADC_THR2_AND_TEMP_PORT_IDR :: "32 word"

record (overloaded) ('w::len) Throttle_PAS_Type =
  last_reading :: "8 word"
  time_counter :: "'w word"
  filtered_speed :: real
  pas_scale_factor :: real

text \<open>
  Lines 189 to 198: the reading, a 32-bit register masked with the bit of the pin and
  truncated to a byte by the assignment; no reading for a channel other than 1 and 2,
  where the function returns at once.
\<close>

definition pas_current_reading :: "pinconfig \<Rightarrow> gpio_inputs \<Rightarrow> 8 word \<Rightarrow> 8 word option" where
  "pas_current_reading pins io thrnum =
     (if thrnum = 1 then
        Some (ucast (ADC_I_VBUS_THR1_PORT_IDR io AND push_bit (ADC_THR1_PIN pins) 1))
      else if thrnum = 2 then
        Some (ucast (ADC_THR2_AND_TEMP_PORT_IDR io AND push_bit (ADC_THR2_PIN pins) 1))
      else None)"

text \<open>Lines 200 to 211.\<close>

definition pas_update ::
  "throttle_params \<Rightarrow> 8 word \<Rightarrow> ('w::len) Throttle_PAS_Type \<Rightarrow> 'w Throttle_PAS_Type" where
  "pas_update P current_reading pas =
     (if current_reading \<noteq> last_reading pas then
        (let pas1 = pas\<lparr>last_reading := current_reading\<rparr>
         in if current_reading = 1 then
              (let pas2 = pas1\<lparr>filtered_speed :=
                            (real (unat (time_counter pas1)) / 1000.0) * PAS_FILTER P
                            + (filtered_speed pas1 * (1 - PAS_FILTER P))\<rparr>
               in pas2\<lparr>time_counter := 0\<rparr>)
            else pas1)
      else pas\<lparr>time_counter := time_counter pas + 1\<rparr>)"

text \<open>Lines 184 to 216: the function returns nothing; the result is \<^verbatim>\<open>sPasThrottle\<close> after it.\<close>

definition throttle_pas_process ::
  "throttle_params \<Rightarrow> pinconfig \<Rightarrow> gpio_inputs \<Rightarrow> 8 word \<Rightarrow> ('w::len) Throttle_PAS_Type
     \<Rightarrow> 'w Throttle_PAS_Type" where
  "throttle_pas_process P pins io thrnum pas =
     (case pas_current_reading pins io thrnum of
        None \<Rightarrow> pas
      | Some current_reading \<Rightarrow> pas_update P current_reading pas)"

text \<open>
  Lines 212 to 214: the value of the local \<^verbatim>\<open>thr_output\<close> at the end of the function,
  which the function neither returns nor stores; none when the function has returned at
  line 198.
\<close>

definition throttle_pas_thr_output ::
  "throttle_params \<Rightarrow> pinconfig \<Rightarrow> gpio_inputs \<Rightarrow> 8 word \<Rightarrow> ('w::len) Throttle_PAS_Type
     \<Rightarrow> real option" where
  "throttle_pas_thr_output P pins io thrnum pas =
     (case pas_current_reading pins io thrnum of
        None \<Rightarrow> None
      | Some current_reading \<Rightarrow>
          (let pas1 = pas_update P current_reading pas
           in Some (throttle_clip (filtered_speed pas1 * pas_scale_factor pas1))))"

text \<open>
  The step as the specification words it, for the comparison with \<open>pas_update\<close>: on a
  level change the filtered speed becomes \<open>(1 / elapsed_time) * W + filtered * (1 - W)\<close>
  and the elapsed-time counter is reset, otherwise the counter is incremented.
\<close>

definition pas_step_claimed ::
  "throttle_params \<Rightarrow> 8 word \<Rightarrow> ('w::len) Throttle_PAS_Type \<Rightarrow> 'w Throttle_PAS_Type" where
  "pas_step_claimed P level pas =
     (if level \<noteq> last_reading pas then
        pas\<lparr>last_reading := level,
            filtered_speed := (1 / real (unat (time_counter pas))) * PAS_FILTER P
                              + filtered_speed pas * (1 - PAS_FILTER P),
            time_counter := 0\<rparr>
      else pas\<lparr>time_counter := time_counter pas + 1\<rparr>)"

section \<open>The periodic entry points (ebike-g4/src/main.c)\<close>

text \<open>
  Of this repository only \<^verbatim>\<open>main.c\<close> and \<^verbatim>\<open>main.h\<close> are among the sources. The
  functions of the other modules that the entry points call are the fields of a record
  \<open>collaborators\<close>, a parameter of each entry point; the state of those modules and of
  the peripherals behind them is a value of a type \<open>'hw\<close> that only they read and write.
  The two registers that \<^verbatim>\<open>main.c\<close> writes itself are fields of the globals. The struct
  types of the headers are modelled with the fields that \<^verbatim>\<open>main.c\<close> uses.
\<close>

datatype adc_current = ADC_IA | ADC_IB | ADC_IC

datatype gpio_port = LED_PORT | DRV_EN_PORT

datatype gpio_pin = GLED_PIN | RLED_PIN | DRV_EN_PIN

record Motor_Controls =
  ThrottleCommand :: real

record Motor_Observations =
  RotorAngle :: real
  RotorSpeed_eHz :: real
  HallState :: "8 word"
  iA :: real
  iB :: real
  iC :: real

record Motor_PWMDuties =
  tA :: real
  tB :: real
  tC :: real

record FOC_StateVariables =
  Clarke_Alpha :: real
  Clarke_Beta :: real

text \<open>
  Modelled from the spec: \<^verbatim>\<open>PID_Type\<close>, whose declaration is not among the sources, as the
  PIDState of section 3: the four gains, the integrator, the previous error and the
  bounds of the output.
\<close>

record PID_Type =
  Kp :: real
  Ki :: real
  Kd :: real
  Kc :: real
  integrator :: real
  prev_error :: real
  outmin :: real
  outmax :: real

text \<open>
  The globals of lines 37 to 49, the static \<^verbatim>\<open>led_timer\<close> of line 150, the registers
  \<^verbatim>\<open>DAC1->DHR12LD\<close> and \<^verbatim>\<open>PWM_TIM->BDTR\<close>, and the state of the collaborators.
  \<^verbatim>\<open>Mvar\<close> is its timestamp; its pointers to the other globals are fixed by \<^verbatim>\<open>main\<close>.
\<close>

record 'hw main_globals =
  DBG_Flags :: "32 word"
  DBG_RampAngle :: real
  DBG_RampIncrement :: real
  Timestamp :: "32 word"
  Mctrl :: Motor_Controls
  Mobv :: Motor_Observations
  Mpwm :: Motor_PWMDuties
  Mfoc :: FOC_StateVariables
  Mpid_Id :: PID_Type
  Mpid_Iq :: PID_Type
  led_timer :: "16 word"
  DAC1_DHR12LD :: "32 word"
  PWM_TIM_BDTR :: "32 word"
  periph :: 'hw

text \<open>
  The functions called by the entry points, none of them among the sources. A function
  that returns through pointers returns a tuple; \<^verbatim>\<open>CORDIC_CalcSinCos\<close> gives the sine, then
  the cosine; \<^verbatim>\<open>FOC_RampGen\<close> gives the new angle. \<open>float_to_uint16\<close> is the conversion of
  the cast \<^verbatim>\<open>(uint16_t)\<close>, which C leaves undefined outside the range of the type;
  \<open>TIM_BDTR_MOE\<close> is the mask of the device header.
\<close>

record 'hw collaborators =
  FOC_RampGen :: "real \<Rightarrow> real \<Rightarrow> real"
  HALL_IncAngle :: "'hw \<Rightarrow> 'hw"
  HALL_GetAngleF :: "'hw \<Rightarrow> real"
  HALL_GetSpeedF :: "'hw \<Rightarrow> real"
  HALL_GetState :: "'hw \<Rightarrow> 8 word"
  CORDIC_CalcSinCos :: "real \<Rightarrow> real \<times> real"
  ADC_InjSeqComplete :: "'hw \<Rightarrow> 'hw"
  ADC_GetCurrent :: "adc_current \<Rightarrow> 'hw \<Rightarrow> real"
  FOC_Ipark :: "real \<Rightarrow> real \<Rightarrow> real \<Rightarrow> real \<Rightarrow> real \<times> real"
  FOC_SVM :: "real \<Rightarrow> real \<Rightarrow> real \<times> real \<times> real"
  float_to_uint16 :: "real \<Rightarrow> 16 word"
  PWM_SetDutyF :: "real \<Rightarrow> real \<Rightarrow> real \<Rightarrow> 'hw \<Rightarrow> 'hw"
  LIVE_AssemblePacket :: "'hw main_globals \<Rightarrow> 'hw \<Rightarrow> 'hw"
  GPIO_Low :: "gpio_port \<Rightarrow> gpio_pin \<Rightarrow> 'hw \<Rightarrow> 'hw"
  GPIO_High :: "gpio_port \<Rightarrow> gpio_pin \<Rightarrow> 'hw \<Rightarrow> 'hw"
  ADC_RegSeqComplete :: "'hw \<Rightarrow> 'hw"
  TIM_BDTR_MOE :: "32 word"
  THROTTLE_Process :: "'hw \<Rightarrow> 'hw"
  THROTTLE_GetCommand :: "'hw \<Rightarrow> real"
  WDT_Feed :: "'hw \<Rightarrow> 'hw"
  USB_Data_Comm_OneByte_Check :: "'hw \<Rightarrow> 'hw"
  LIVE_SendPacket :: "'hw \<Rightarrow> 'hw"

text \<open>Line 36.\<close>

definition DBG_FLAG_PWM_ENABLE :: "32 word" where
  "DBG_FLAG_PWM_ENABLE = 0x00000001"

subsection \<open>The slow entry point\<close>

text \<open>Lines 149 to 173, called at 1 kHz.\<close>

definition MAIN_AppTimerISR :: "'hw collaborators \<Rightarrow> 'hw main_globals \<Rightarrow> 'hw main_globals" where
  "MAIN_AppTimerISR E s =
     (let s1 = s\<lparr>led_timer := led_timer s + 1\<rparr>;
          s2 = (if led_timer s1 = 500
                then s1\<lparr>periph := GPIO_Low E LED_PORT GLED_PIN (periph s1)\<rparr> else s1);
          s3 = (if led_timer s2 \<ge> 1000
                then s2\<lparr>periph := GPIO_High E LED_PORT GLED_PIN (periph s2), led_timer := 0\<rparr>
                else s2);
          s4 = s3\<lparr>periph := ADC_RegSeqComplete E (periph s3)\<rparr>;
          s5 = (if DBG_Flags s4 AND DBG_FLAG_PWM_ENABLE \<noteq> 0
                then s4\<lparr>PWM_TIM_BDTR := PWM_TIM_BDTR s4 OR TIM_BDTR_MOE E\<rparr>
                else s4\<lparr>PWM_TIM_BDTR := PWM_TIM_BDTR s4 AND NOT (TIM_BDTR_MOE E)\<rparr>);
          s6 = s5\<lparr>periph := THROTTLE_Process E (periph s5)\<rparr>
      in s6\<lparr>Mctrl := (Mctrl s6)\<lparr>ThrottleCommand := THROTTLE_GetCommand E (periph s6)\<rparr>\<rparr>)"

text \<open>Lines 139 to 145: one turn of the background loop of \<^verbatim>\<open>main\<close>.\<close>

definition main_loop_body :: "'hw collaborators \<Rightarrow> 'hw main_globals \<Rightarrow> 'hw main_globals" where
  "main_loop_body E s =
     (let s1 = s\<lparr>periph := WDT_Feed E (periph s)\<rparr>;
          s2 = s1\<lparr>periph := USB_Data_Comm_OneByte_Check E (periph s1)\<rparr>
      in s2\<lparr>periph := LIVE_SendPacket E (periph s2)\<rparr>)"

subsection \<open>The fast entry point\<close>

text \<open>Lines 176 to 212, called at 20 kHz.\<close>

definition MAIN_MotorISR :: "'hw collaborators \<Rightarrow> 'hw main_globals \<Rightarrow> 'hw main_globals" where
  "MAIN_MotorISR E s =
     (let s1 = s\<lparr>Timestamp := Timestamp s + 1\<rparr>;
          s2 = s1\<lparr>DBG_RampAngle := FOC_RampGen E (DBG_RampAngle s1) (DBG_RampIncrement s1)\<rparr>;
          s3 = s2\<lparr>periph := HALL_IncAngle E (periph s2)\<rparr>;
          s4 = s3\<lparr>Mobv := (Mobv s3)\<lparr>RotorAngle := HALL_GetAngleF E (periph s3)\<rparr>\<rparr>;
          s5 = s4\<lparr>Mobv := (Mobv s4)\<lparr>RotorSpeed_eHz := HALL_GetSpeedF E (periph s4)\<rparr>\<rparr>;
          s6 = s5\<lparr>Mobv := (Mobv s5)\<lparr>HallState := HALL_GetState E (periph s5)\<rparr>\<rparr>;
          (sin, cos) = CORDIC_CalcSinCos E (DBG_RampAngle s6 * 2.0 - 1.0);
          s7 = s6\<lparr>periph := ADC_InjSeqComplete E (periph s6)\<rparr>;
          s8 = s7\<lparr>Mobv := (Mobv s7)\<lparr>iA := ADC_GetCurrent E ADC_IA (periph s7)\<rparr>\<rparr>;
          s9 = s8\<lparr>Mobv := (Mobv s8)\<lparr>iB := ADC_GetCurrent E ADC_IB (periph s8)\<rparr>\<rparr>;
          s10 = s9\<lparr>Mobv := (Mobv s9)\<lparr>iC := ADC_GetCurrent E ADC_IC (periph s9)\<rparr>\<rparr>;
          (alpha, beta) = FOC_Ipark E 0.75 0.0 sin cos;
          s11 = s10\<lparr>Mfoc := (Mfoc s10)\<lparr>Clarke_Alpha := alpha, Clarke_Beta := beta\<rparr>\<rparr>;
          (ta, tb, tc) = FOC_SVM E (Clarke_Alpha (Mfoc s11)) (Clarke_Beta (Mfoc s11));
          s12 = s11\<lparr>Mpwm := (Mpwm s11)\<lparr>tA := ta, tB := tb, tC := tc\<rparr>\<rparr>;
          dac1 = float_to_uint16 E (65535.0 * tA (Mpwm s12));
          dac2 = float_to_uint16 E (65535.0 * tB (Mpwm s12));
          s13 = s12\<lparr>DAC1_DHR12LD := ucast dac1 + push_bit 16 (ucast dac2)\<rparr>;
          s14 = s13\<lparr>periph := PWM_SetDutyF E (tA (Mpwm s13)) (tB (Mpwm s13)) (tC (Mpwm s13))
                                  (periph s13)\<rparr>
      in s14\<lparr>periph := LIVE_AssemblePacket E s14 (periph s14)\<rparr>)"

subsection \<open>The fast period as the specification words it\<close>

text \<open>
  Modelled from the spec: the regulator step of section 4.4, item 2, on the PIDState of
  section 3; the result is the clamped output and the regulator after the step.
\<close>

definition PID_step :: "real \<Rightarrow> real \<Rightarrow> PID_Type \<Rightarrow> real \<times> PID_Type" where
  "PID_step reference measured pid =
     (let error = reference - measured;
          integ = integrator pid + Ki pid * error;
          unclamped = Kp pid * error + integ + Kd pid * (error - prev_error pid);
          clamped = (if unclamped < outmin pid then outmin pid
                     else if unclamped > outmax pid then outmax pid else unclamped);
          integ1 = integ - Kc pid * (unclamped - clamped)
      in (clamped, pid\<lparr>integrator := integ1, prev_error := error\<rparr>))"

text \<open>
  Modelled from the spec: the rotating-frame transform of section 4.4, item 1, in its
  textbook form: the two-axis stator currents from the phase currents, then their
  rotation by the rotor angle into direct and quadrature currents.
\<close>

definition park_claimed :: "real \<Rightarrow> real \<Rightarrow> real \<Rightarrow> real \<Rightarrow> real \<times> real" where
  "park_claimed ia ib sn cs =
     (let i_alpha = ia;
          i_beta = (ia + 2 * ib) / sqrt 3
      in (i_alpha * cs + i_beta * sn, i_beta * cs - i_alpha * sn))"

text \<open>
  Modelled from the spec: the current loop of section 4.4 on the state that
  \<open>MAIN_MotorISR\<close> has when it has read the currents: sine and cosine of the estimated
  rotor angle, the transform of the measured currents, the two regulators against a zero
  direct-axis reference and the published torque reference, and the inverse transform of
  their outputs. The result is the modulation vector and the two regulators after it.
\<close>

definition current_loop_claimed ::
  "'hw collaborators \<Rightarrow> 'hw main_globals \<Rightarrow> (real \<times> real) \<times> PID_Type \<times> PID_Type" where
  "current_loop_claimed E s =
     (let (sn, cs) = CORDIC_CalcSinCos E (RotorAngle (Mobv s) * 2.0 - 1.0);
          (i_d, i_q) = park_claimed (iA (Mobv s)) (iB (Mobv s)) sn cs;
          (v_d, pid_d) = PID_step 0 i_d (Mpid_Id s);
          (v_q, pid_q) = PID_step (ThrottleCommand (Mctrl s)) i_q (Mpid_Iq s)
      in (FOC_Ipark E v_d v_q sn cs, pid_d, pid_q))"

subsection \<open>A bench\<close>

text \<open>
  Modelled from the spec: collaborators for the concrete inputs, each the simplest
  function that does what its name says and records what it is asked. The peripherals
  hold the rotor estimate, the phase currents, the duties last written, the level of the
  status indicator, the state of the throttle conditioner, and counts of the watchdog
  feeds and of the telemetry calls. The inverse transform is the rotation of section 4.4,
  item 3; the modulator is the min-max centring of section 4.5.
\<close>

record bench =
  hall_angle :: real
  hall_speed :: real
  hall_state :: "8 word"
  phase_currents :: "adc_current \<Rightarrow> real"
  pwm_duties :: "real \<times> real \<times> real"
  green_led :: bool
  throttle_raw :: real
  throttle_command :: real
  wdt_feeds :: nat
  live_packets :: nat

definition bench_ramp :: "real \<Rightarrow> real \<Rightarrow> real" where
  "bench_ramp angle increment =
     (if angle + increment > 1 then angle + increment - 1 else angle + increment)"

definition bench_hall_tick :: "bench \<Rightarrow> bench" where
  "bench_hall_tick h =
     h\<lparr>hall_angle := bench_ramp (hall_angle h) (hall_speed h / 20000)\<rparr>"

definition bench_ipark :: "real \<Rightarrow> real \<Rightarrow> real \<Rightarrow> real \<Rightarrow> real \<times> real" where
  "bench_ipark d q sn cs = (d * cs - q * sn, q * cs + d * sn)"

definition bench_clamp01 :: "real \<Rightarrow> real" where
  "bench_clamp01 x = (if x < 0 then 0 else if x > 1 then 1 else x)"

definition bench_svm :: "real \<Rightarrow> real \<Rightarrow> real \<times> real \<times> real" where
  "bench_svm alpha beta =
     (let a = alpha;
          b = (- alpha + sqrt 3 * beta) / 2;
          c = (- alpha - sqrt 3 * beta) / 2;
          mid = (max a (max b c) + min a (min b c)) / 2
      in (bench_clamp01 (1 / 2 + (a - mid)), bench_clamp01 (1 / 2 + (b - mid)),
          bench_clamp01 (1 / 2 + (c - mid))))"

definition bench_led :: "bool \<Rightarrow> gpio_port \<Rightarrow> gpio_pin \<Rightarrow> bench \<Rightarrow> bench" where
  "bench_led level port pin h =
     (if port = LED_PORT \<and> pin = GLED_PIN then h\<lparr>green_led := level\<rparr> else h)"

definition bench_collaborators :: "bench collaborators" where
  "bench_collaborators =
     \<lparr> FOC_RampGen = bench_ramp,
       HALL_IncAngle = bench_hall_tick,
       HALL_GetAngleF = hall_angle,
       HALL_GetSpeedF = hall_speed,
       HALL_GetState = hall_state,
       CORDIC_CalcSinCos = (\<lambda>x. (sin (pi * x), cos (pi * x))),
       ADC_InjSeqComplete = (\<lambda>h. h),
       ADC_GetCurrent = (\<lambda>ch h. phase_currents h ch),
       FOC_Ipark = bench_ipark,
       FOC_SVM = bench_svm,
       float_to_uint16 = (\<lambda>x. word_of_int \<lfloor>x\<rfloor>),
       PWM_SetDutyF = (\<lambda>a b c h. h\<lparr>pwm_duties := (a, b, c)\<rparr>),
       LIVE_AssemblePacket = (\<lambda>s h. h\<lparr>live_packets := live_packets h + 1\<rparr>),
       GPIO_Low = bench_led False,
       GPIO_High = bench_led True,
       ADC_RegSeqComplete = (\<lambda>h. h),
       TIM_BDTR_MOE = 0x8000,
       THROTTLE_Process = (\<lambda>h. h\<lparr>throttle_command := throttle_clip (throttle_raw h)\<rparr>),
       THROTTLE_GetCommand = throttle_command,
       WDT_Feed = (\<lambda>h. h\<lparr>wdt_feeds := wdt_feeds h + 1\<rparr>),
       USB_Data_Comm_OneByte_Check = (\<lambda>h. h),
       LIVE_SendPacket = (\<lambda>h. h) \<rparr>"

text \<open>
  The bench at rest: rotor and ramp at half a revolution, no current, the indicator on as
  \<^verbatim>\<open>main\<close> leaves it (line 111), the throttle half open, regulators with the default gains
  of \<^verbatim>\<open>project_parameters.h\<close> (lines 57 to 62) and nothing accumulated.
\<close>

definition bench_pid :: PID_Type where
  "bench_pid =
     \<lparr> Kp = 0.1, Ki = 0.001, Kd = 0.0, Kc = 0.05, integrator = 0, prev_error = 0,
       outmin = - 0.95, outmax = 0.95 \<rparr>"

definition bench_periph :: bench where
  "bench_periph =
     \<lparr> hall_angle = 1 / 2, hall_speed = 0, hall_state = 1, phase_currents = (\<lambda>ch. 0),
       pwm_duties = (0, 0, 0), green_led = True, throttle_raw = 1 / 2, throttle_command = 0,
       wdt_feeds = 0, live_packets = 0 \<rparr>"

definition bench_globals :: "bench main_globals" where
  "bench_globals =
     \<lparr> DBG_Flags = 0, DBG_RampAngle = 1 / 2, DBG_RampIncrement = 0, Timestamp = 0,
       Mctrl = \<lparr>ThrottleCommand = 1 / 2\<rparr>,
       Mobv = \<lparr>RotorAngle = 0, RotorSpeed_eHz = 0, HallState = 0, iA = 0, iB = 0, iC = 0\<rparr>,
       Mpwm = \<lparr>tA = 0, tB = 0, tC = 0\<rparr>,
       Mfoc = \<lparr>Clarke_Alpha = 0, Clarke_Beta = 0\<rparr>,
       Mpid_Id = bench_pid, Mpid_Iq = bench_pid,
       led_timer = 0, DAC1_DHR12LD = 0, PWM_TIM_BDTR = 0,
       periph = bench_periph \<rparr>"

section \<open>Concrete inputs of the throttle functions\<close>

text \<open>
  A filter whose output is its input (a biquad with \<open>b0 = 1\<close> and every other
  coefficient zero), and the globals at power-up: \<^verbatim>\<open>prev_output\<close> is \<open>0.0f\<close> (line 17);
  the initialiser \<^verbatim>\<open>THROTTLE_ANALOG_DEFAULTS\<close> is not among the sources and is taken to be
  zero in every field.
\<close>

definition passthrough :: "unit biquad_step" where
  "passthrough b = b\<lparr>Y := X b\<rparr>"

definition power_up :: "unit throttle_globals" where
  "power_up =
     \<lparr> Throttle_filt = \<lparr>X = 0, Y = 0\<rparr>,
       sThrottle = \<lparr>startup_count = 0, thr_min = 0, thr_max = 0, scale_factor = 0, state = 0\<rparr>,
       prev_output = 0 \<rparr>"

text \<open>A calibrated channel in regular operation, the latch on, the last output at 0.4.\<close>

definition riding :: "unit throttle_globals" where
  "riding =
     \<lparr> Throttle_filt = \<lparr>X = 1.5, Y = 1.5\<rparr>,
       sThrottle = \<lparr>startup_count = 1001, thr_min = 0.85, thr_max = 2.2,
                     scale_factor = 1 / 1.35, state = 1\<rparr>,
       prev_output = 0.4 \<rparr>"

text \<open>The same channel with the latch off and the last output at zero.\<close>

definition coasting :: "unit throttle_globals" where
  "coasting =
     \<lparr> Throttle_filt = \<lparr>X = 0.85, Y = 0.85\<rparr>,
       sThrottle = \<lparr>startup_count = 1001, thr_min = 0.85, thr_max = 2.2,
                     scale_factor = 1 / 1.35, state = 0\<rparr>,
       prev_output = 0 \<rparr>"

text \<open>
  For \<open>throttle_pas_process\<close>: the pins as the comments of lines 35 and 65 of \<^verbatim>\<open>throttle.c\<close>
  give them (lines 5 and 0 of the two ports), both pedal inputs high and both low, and a
  channel whose last reading was high, seven periods ago.
\<close>

definition board_pins :: pinconfig where
  "board_pins = \<lparr>ADC_THR1_PIN = 5, ADC_THR2_PIN = 0\<rparr>"

definition pedal_high :: gpio_inputs where
  "pedal_high = \<lparr>ADC_I_VBUS_THR1_PORT_IDR = 0x20, ADC_THR2_AND_TEMP_PORT_IDR = 0x01\<rparr>"

definition pedal_low :: gpio_inputs where
  "pedal_low = \<lparr>ADC_I_VBUS_THR1_PORT_IDR = 0, ADC_THR2_AND_TEMP_PORT_IDR = 0\<rparr>"

definition pedalling :: "32 Throttle_PAS_Type" where
  "pedalling =
     \<lparr>last_reading = 1, time_counter = 7, filtered_speed = 0.5, pas_scale_factor = 1\<rparr>"

section \<open>Properties of \<open>throttle_process\<close>\<close>

lemmas concrete_defs =
  default_params_def power_up_def riding_def passthrough_def
  throttle_process_def throttle_startup_def throttle_calibrate_def throttle_below_min_def
  throttle_new_max_def throttle_clip_def throttle_cmd_def throttle_hyst_def throttle_slew_def
  filtered_def in_startup_def reenters_deadtime_def regular_call_def
  THROTTLE_MIN_DEFAULT_def THROTTLE_MAX_DEFAULT_def THROTTLE_OUTPUT_MIN_def
  THROTTLE_OUTPUT_MAX_def Let_def coasting_def clamped_cmd_def gated_cmd_def

subsection \<open>The three ways through a call\<close>

lemma call_cases:
  "in_startup P g \<or> reenters_deadtime P f vref raw g \<or> regular_call P f vref raw g"
  by (auto simp: regular_call_def)

lemma throttle_process_startup:
  "in_startup P g \<Longrightarrow>
   throttle_process P f vref raw g =
     (0, g\<lparr>Throttle_filt := f ((Throttle_filt g)\<lparr>X := raw\<rparr>),
           sThrottle := throttle_startup P (filtered f raw g) (sThrottle g)\<rparr>)"
  by (simp add: throttle_process_def in_startup_def filtered_def Let_def)

lemma throttle_process_reenter:
  "reenters_deadtime P f vref raw g \<Longrightarrow>
   throttle_process P f vref raw g =
     (0, g\<lparr>Throttle_filt := f ((Throttle_filt g)\<lparr>X := raw\<rparr>),
           sThrottle := (throttle_calibrate P vref (sThrottle g))\<lparr>startup_count := 0\<rparr>\<rparr>)"
  by (simp add: throttle_process_def reenters_deadtime_def in_startup_def filtered_def Let_def)

lemma throttle_process_regular:
  assumes "regular_call P f vref raw g"
  shows "throttle_process P f vref raw g =
     (let y = filtered f raw g;
          thr2 = throttle_new_max P y (throttle_calibrate P vref (sThrottle g));
          h = throttle_hyst P (throttle_cmd y thr2) thr2;
          r = throttle_slew P (prev_output g) (fst h)
      in (r, g\<lparr>Throttle_filt := f ((Throttle_filt g)\<lparr>X := raw\<rparr>),
               sThrottle := snd h, prev_output := r\<rparr>))"
proof -
  have a: "\<not> startup_count (sThrottle g) < THROTTLE_START_TIME P"
    using assms by (simp add: regular_call_def in_startup_def)
  have b: "\<not> throttle_below_min P (Y (f ((Throttle_filt g)\<lparr>X := raw\<rparr>)))
              (throttle_calibrate P vref (sThrottle g))"
    using assms by (auto simp: regular_call_def reenters_deadtime_def filtered_def)
  show ?thesis
    by (simp add: throttle_process_def filtered_def Let_def case_prod_beta a b)
qed

subsection \<open>The blocks\<close>

lemma throttle_clip_range: "0 \<le> throttle_clip c \<and> throttle_clip c \<le> 0.99"
  by (simp add: throttle_clip_def THROTTLE_OUTPUT_MIN_def THROTTLE_OUTPUT_MAX_def Let_def)

lemma throttle_hyst_fst: "fst (throttle_hyst P c thr) = 0 \<or> fst (throttle_hyst P c thr) = c"
  by (simp add: throttle_hyst_def)

lemma throttle_slew_le: "throttle_slew P prev c \<le> c"
  by (simp add: throttle_slew_def Let_def)

lemma throttle_slew_ge:
  "0 \<le> THROTTLE_SLEW_RATE P \<Longrightarrow> 0 \<le> prev \<Longrightarrow> 0 \<le> c \<Longrightarrow> 0 \<le> throttle_slew P prev c"
  by (simp add: throttle_slew_def Let_def)

subsection \<open>Regular processing\<close>

lemma calibrate_state [simp]: "state (throttle_calibrate P vref thr) = state thr"
  by (simp add: throttle_calibrate_def Let_def)

lemma new_max_state [simp]: "state (throttle_new_max P y thr) = state thr"
  by (simp add: throttle_new_max_def Let_def)

lemma slew_zero: "0 \<le> THROTTLE_SLEW_RATE P \<Longrightarrow> 0 \<le> prev \<Longrightarrow> throttle_slew P prev 0 = 0"
  by (simp add: throttle_slew_def Let_def)

lemma regular_result:
  assumes "regular_call P f vref raw g"
  shows "fst (throttle_process P f vref raw g) = throttle_slew P (prev_output g) (gated_cmd P f vref raw g)"
    and "prev_output (snd (throttle_process P f vref raw g)) = fst (throttle_process P f vref raw g)"
    and "sThrottle (snd (throttle_process P f vref raw g)) =
           snd (throttle_hyst P (clamped_cmd P f vref raw g)
             (throttle_new_max P (filtered f raw g) (throttle_calibrate P vref (sThrottle g))))"
  using assms by (simp_all add: throttle_process_regular gated_cmd_def clamped_cmd_def Let_def)

lemma gated_hyst:
  "gated_cmd P f vref raw g = fst (throttle_hyst P (clamped_cmd P f vref raw g)
             (throttle_new_max P (filtered f raw g) (throttle_calibrate P vref (sThrottle g))))"
  by (simp add: gated_cmd_def clamped_cmd_def Let_def)

subsection \<open>Hysteresis\<close>

lemma hyst_step:
  assumes "regular_call P f vref raw g" "0 \<le> THROTTLE_SLEW_RATE P" "0 \<le> prev_output g"
  shows "(let c = clamped_cmd P f vref raw g;
              r = fst (throttle_process P f vref raw g);
              latch = state (sThrottle (snd (throttle_process P f vref raw g)))
          in if state (sThrottle g) = 0
             then (if c \<ge> THROTTLE_HYST_HIGH P
                   then latch = 1 \<and> r = throttle_slew P (prev_output g) c
                   else latch = 0 \<and> r = 0)
             else (if c \<le> THROTTLE_HYST_LOW P
                   then latch = 0 \<and> r = 0
                   else latch = state (sThrottle g) \<and> r = throttle_slew P (prev_output g) c))"
  using assms(2,3)
  by (simp add: regular_result[OF assms(1)] gated_hyst throttle_hyst_def Let_def slew_zero)

lemma hyst_quiet_step:
  assumes "regular_call P f vref raw g"
    "THROTTLE_HYST_LOW P < clamped_cmd P f vref raw g" "clamped_cmd P f vref raw g < THROTTLE_HYST_HIGH P"
  shows "state (sThrottle (snd (throttle_process P f vref raw g))) = state (sThrottle g)"
  using assms(2,3)
  by (simp add: regular_result[OF assms(1)] throttle_hyst_def)

lemma hyst_quiet_run:
  "between_thresholds P f ins g \<Longrightarrow> s \<in> set (latch_trace P f ins g) \<Longrightarrow> s = state (sThrottle g)"
proof (induction ins arbitrary: g)
  case Nil
  then show ?case by simp
next
  case (Cons i ins)
  obtain vref raw where i: "i = (vref, raw)" by (cases i)
  let ?g1 = "snd (throttle_process P f vref raw g)"
  have st: "state (sThrottle ?g1) = state (sThrottle g)"
    using Cons.prems(1) hyst_quiet_step[of P f vref raw g] by (simp add: i)
  have bt: "between_thresholds P f ins ?g1" using Cons.prems(1) by (simp add: i)
  from Cons.prems(2) have "s = state (sThrottle ?g1) \<or> s \<in> set (latch_trace P f ins ?g1)"
    by (simp add: i Let_def)
  then show ?case using Cons.IH[OF bt] st by auto
qed

subsection \<open>The bounds of a calibrated channel\<close>

text \<open>
  Every calibration leaves \<open>min \<le> 1.0\<close> and \<open>1.5 \<le> max\<close>, and a new maximum only
  raises \<open>max\<close>: once the startup sequence has completed, both divisions
  \<open>1 / (max - min)\<close> have a divisor of at least one half, so that the real quotient of
  the model is the quotient that the code computes.
\<close>

lemma throttle_calibrate_bounds:
  assumes "startup_count thr = THROTTLE_START_TIME P"
  shows "thr_min (throttle_calibrate P vref thr) \<le> 1
       \<and> 3 / 2 \<le> thr_max (throttle_calibrate P vref thr)
       \<and> startup_count (throttle_calibrate P vref thr) = THROTTLE_START_TIME P + 1"
  using assms
  by (simp add: throttle_calibrate_def Let_def THROTTLE_MIN_DEFAULT_def THROTTLE_MAX_DEFAULT_def)

lemma throttle_process_bounds_inv:
  assumes L: "0 \<le> THROTTLE_RANGE_LIMIT P"
    and inv: "THROTTLE_START_TIME P < startup_count (sThrottle g) \<longrightarrow>
              thr_min (sThrottle g) \<le> 1 \<and> 3 / 2 \<le> thr_max (sThrottle g)"
  shows "THROTTLE_START_TIME P < startup_count (sThrottle (snd (throttle_process P f vref raw g)))
         \<longrightarrow> thr_min (sThrottle (snd (throttle_process P f vref raw g))) \<le> 1
           \<and> 3 / 2 \<le> thr_max (sThrottle (snd (throttle_process P f vref raw g)))"
proof -
  consider (a) "in_startup P g" | (b) "reenters_deadtime P f vref raw g"
    | (c) "regular_call P f vref raw g"
    using call_cases by blast
  then show ?thesis
  proof cases
    case a
    then show ?thesis
      by (simp add: throttle_process_startup throttle_startup_def in_startup_def Let_def)
  next
    case b
    then show ?thesis by (simp add: throttle_process_reenter)
  next
    case c
    define thr1 where "thr1 = throttle_calibrate P vref (sThrottle g)"
    define y where "y = filtered f raw g"
    have ge: "THROTTLE_START_TIME P \<le> startup_count (sThrottle g)"
      using c by (simp add: regular_call_def in_startup_def)
    have b1: "thr_min thr1 \<le> 1 \<and> 3 / 2 \<le> thr_max thr1"
    proof (cases "startup_count (sThrottle g) = THROTTLE_START_TIME P")
      case True
      then show ?thesis using throttle_calibrate_bounds[of "sThrottle g" P vref]
        by (simp add: thr1_def)
    next
      case False
      then have "THROTTLE_START_TIME P < startup_count (sThrottle g)" using ge by simp
      then show ?thesis using inv False by (simp add: thr1_def throttle_calibrate_def)
    qed
    have b2: "thr_min (throttle_new_max P y thr1) \<le> 1 \<and> 3 / 2 \<le> thr_max (throttle_new_max P y thr1)"
      using b1 L by (simp add: throttle_new_max_def Let_def)
    have "sThrottle (snd (throttle_process P f vref raw g))
            = snd (throttle_hyst P (clamped_cmd P f vref raw g) (throttle_new_max P y thr1))"
      using regular_result(3)[OF c] by (simp add: y_def thr1_def)
    then show ?thesis using b2 by (simp add: throttle_hyst_def)
  qed
qed

lemma throttle_divisors_positive:
  assumes "0 \<le> THROTTLE_RANGE_LIMIT P"
    and "THROTTLE_START_TIME P < startup_count (sThrottle g) \<longrightarrow>
              thr_min (sThrottle g) \<le> 1 \<and> 3 / 2 \<le> thr_max (sThrottle g)"
    and "\<not> in_startup P g"
  shows "1 / 2 \<le> thr_max (throttle_calibrate P vref (sThrottle g))
                  - thr_min (throttle_calibrate P vref (sThrottle g))"
    and "thr_max (throttle_calibrate P vref (sThrottle g)) + THROTTLE_RANGE_LIMIT P < y
         \<Longrightarrow> 1 / 2 < y - thr_min (throttle_calibrate P vref (sThrottle g))"
proof -
  have ge: "THROTTLE_START_TIME P \<le> startup_count (sThrottle g)"
    using assms(3) by (simp add: in_startup_def)
  have b1: "thr_min (throttle_calibrate P vref (sThrottle g)) \<le> 1
      \<and> 3 / 2 \<le> thr_max (throttle_calibrate P vref (sThrottle g))"
  proof (cases "startup_count (sThrottle g) = THROTTLE_START_TIME P")
    case True
    then show ?thesis using throttle_calibrate_bounds[of "sThrottle g" P vref] by simp
  next
    case False
    then have "THROTTLE_START_TIME P < startup_count (sThrottle g)" using ge by simp
    then show ?thesis using assms(2) False by (simp add: throttle_calibrate_def)
  qed
  show "1 / 2 \<le> thr_max (throttle_calibrate P vref (sThrottle g))
                  - thr_min (throttle_calibrate P vref (sThrottle g))"
    using b1 by simp
  show "1 / 2 < y - thr_min (throttle_calibrate P vref (sThrottle g))"
    if "thr_max (throttle_calibrate P vref (sThrottle g)) + THROTTLE_RANGE_LIMIT P < y"
    using b1 that assms(1) by simp
qed

subsection \<open>The startup sequence, call after call\<close>

lemma filtered_passthrough [simp]: "filtered passthrough x g = x"
  by (simp add: filtered_def passthrough_def)

lemma throttle_run_append:
  "throttle_run P f (xs @ ys) g =
     (fst (throttle_run P f xs g) @ fst (throttle_run P f ys (snd (throttle_run P f xs g))),
      snd (throttle_run P f ys (snd (throttle_run P f xs g))))"
  by (induction xs arbitrary: g) (auto simp: case_prod_beta Let_def)

lemma throttle_run_single:
  "throttle_run P f [(v, x)] g = ([fst (throttle_process P f v x g)], snd (throttle_process P f v x g))"
  by (simp add: case_prod_beta)

lemma startup_step_passthrough:
  assumes "startup_count (sThrottle g) < THROTTLE_START_TIME P"
  shows "fst (throttle_process P passthrough v x g) = 0"
    and "prev_output (snd (throttle_process P passthrough v x g)) = prev_output g"
    and "sThrottle (snd (throttle_process P passthrough v x g)) =
           (sThrottle g)\<lparr>startup_count := startup_count (sThrottle g) + 1,
             thr_min := thr_min (sThrottle g)
               + (if THROTTLE_START_DEADTIME P \<le> startup_count (sThrottle g) + 1 then x else 0)\<rparr>"
  using assms
  by (simp_all add: throttle_process_startup in_startup_def throttle_startup_def Let_def)

lemma startup_run_passthrough:
  "startup_count (sThrottle g) + n \<le> THROTTLE_START_TIME P \<Longrightarrow>
   fst (throttle_run P passthrough (replicate n (v, x)) g) = replicate n 0
   \<and> prev_output (snd (throttle_run P passthrough (replicate n (v, x)) g)) = prev_output g
   \<and> sThrottle (snd (throttle_run P passthrough (replicate n (v, x)) g)) =
       (sThrottle g)\<lparr>startup_count := startup_count (sThrottle g) + n,
          thr_min := thr_min (sThrottle g)
            + x * real (startup_count (sThrottle g) + n + 1
                        - max (startup_count (sThrottle g) + 1) (THROTTLE_START_DEADTIME P))\<rparr>"
proof (induction n arbitrary: g)
  case 0
  then show ?case by simp
next
  case (Suc n)
  let ?g1 = "snd (throttle_process P passthrough v x g)"
  let ?c = "startup_count (sThrottle g)"
  let ?D = "THROTTLE_START_DEADTIME P"
  have lt: "?c < THROTTLE_START_TIME P" using Suc.prems by simp
  note st = startup_step_passthrough[OF lt, of v x]
  have c1: "startup_count (sThrottle ?g1) = ?c + 1" by (simp add: st(3))
  have le: "startup_count (sThrottle ?g1) + n \<le> THROTTLE_START_TIME P"
    using Suc.prems c1 by simp
  note ih = Suc.IH[OF le]
  have ar: "(if ?D \<le> ?c + 1 then x else 0) + x * real (?c + 1 + n + 1 - max (?c + 1 + 1) ?D)
        = x * real (?c + Suc n + 1 - max (?c + 1) ?D)"
  proof (cases "?D \<le> ?c + 1")
    case True
    then have "max (?c + 1 + 1) ?D = ?c + 2" "max (?c + 1) ?D = ?c + 1" by simp_all
    then show ?thesis using True by (simp add: algebra_simps)
  next
    case False
    then have "max (?c + 1 + 1) ?D = ?D" "max (?c + 1) ?D = ?D" by simp_all
    then show ?thesis using False by simp
  qed
  show ?case
    using ih ar by (simp add: case_prod_beta Let_def st add.assoc)
qed

lemma throttle_run_replicate_Suc:
  "throttle_run P f (replicate (Suc n) i) g =
     (fst (throttle_run P f (replicate n i) g)
        @ [fst (throttle_process P f (fst i) (snd i) (snd (throttle_run P f (replicate n i) g)))],
      snd (throttle_process P f (fst i) (snd i) (snd (throttle_run P f (replicate n i) g))))"
proof -
  have "replicate (Suc n) i = replicate n i @ [(fst i, snd i)]"
    by (simp add: replicate_append_same)
  then show ?thesis
    by (simp only: throttle_run_append throttle_run_single) simp
qed

subsection \<open>The range of the command\<close>

lemma throttle_process_range_inv:
  assumes "0 \<le> THROTTLE_SLEW_RATE P" "0 \<le> prev_output g" "prev_output g \<le> 0.99"
  shows "0 \<le> fst (throttle_process P f vref raw g)
       \<and> fst (throttle_process P f vref raw g) \<le> 0.99
       \<and> 0 \<le> prev_output (snd (throttle_process P f vref raw g))
       \<and> prev_output (snd (throttle_process P f vref raw g)) \<le> 0.99"
proof -
  consider (a) "in_startup P g" | (b) "reenters_deadtime P f vref raw g"
    | (c) "regular_call P f vref raw g"
    using call_cases by blast
  then show ?thesis
  proof cases
    case a
    then show ?thesis using assms by (simp add: throttle_process_startup)
  next
    case b
    then show ?thesis using assms by (simp add: throttle_process_reenter)
  next
    case c
    define y where "y = filtered f raw g"
    define thr2 where "thr2 = throttle_new_max P y (throttle_calibrate P vref (sThrottle g))"
    define h where "h = fst (throttle_hyst P (throttle_cmd y thr2) thr2)"
    have h: "0 \<le> h \<and> h \<le> 0.99"
      using throttle_hyst_fst[of P "throttle_cmd y thr2" thr2]
        throttle_clip_range[of "(y - thr_min thr2) * scale_factor thr2"]
      unfolding h_def throttle_cmd_def by auto
    have "0 \<le> throttle_slew P (prev_output g) h" "throttle_slew P (prev_output g) h \<le> 0.99"
      using throttle_slew_ge[OF assms(1,2), of h] throttle_slew_le[of P "prev_output g" h] h
      by auto
    then show ?thesis using c
      by (simp add: throttle_process_regular Let_def y_def thr2_def h_def)
  qed
qed

lemma throttle_run_range:
  assumes "0 \<le> THROTTLE_SLEW_RATE P"
  shows "0 \<le> prev_output g \<Longrightarrow> prev_output g \<le> 0.99 \<Longrightarrow>
         r \<in> set (fst (throttle_run P f ins g)) \<Longrightarrow> 0 \<le> r \<and> r \<le> 0.99"
proof (induction ins arbitrary: g)
  case Nil
  then show ?case by simp
next
  case (Cons i ins)
  obtain vref raw where i: "i = (vref, raw)" by (cases i)
  let ?g1 = "snd (throttle_process P f vref raw g)"
  have st: "0 \<le> fst (throttle_process P f vref raw g)
       \<and> fst (throttle_process P f vref raw g) \<le> 0.99
       \<and> 0 \<le> prev_output ?g1 \<and> prev_output ?g1 \<le> 0.99"
    using throttle_process_range_inv[OF assms Cons.prems(1,2)] .
  from Cons.prems(3) have "r = fst (throttle_process P f vref raw g)
      \<or> r \<in> set (fst (throttle_run P f ins ?g1))"
    by (simp add: i case_prod_beta Let_def)
  then show ?case
  proof
    assume "r = fst (throttle_process P f vref raw g)"
    then show ?thesis using st by simp
  next
    assume "r \<in> set (fst (throttle_run P f ins ?g1))"
    then show ?thesis using Cons.IH[of ?g1] st by simp
  qed
qed

text \<open>
  C1. Every command that \<open>throttle_process\<close> returns lies in
  \<open>[THROTTLE_OUTPUT_MIN, THROTTLE_OUTPUT_MAX] = [0.00, 0.99]\<close>, whatever the state of
  the channel (startup, end of the averaging, regular processing, restart of the
  calibration), the filter, the supply reference and the raw voltages: for every sequence
  of calls that starts with the last output within the range, as it is at power-up, where
  line 17 sets it to zero, and after every call. The slew rate is a rate, not negative.
\<close>

theorem throttle_output_within_limits:
  assumes "0 \<le> THROTTLE_SLEW_RATE P"
    and "THROTTLE_OUTPUT_MIN \<le> prev_output g" and "prev_output g \<le> THROTTLE_OUTPUT_MAX"
  shows "\<forall>r \<in> set (fst (throttle_run P dfsl_biquadf ins g)).
           THROTTLE_OUTPUT_MIN \<le> r \<and> r \<le> THROTTLE_OUTPUT_MAX"
  using assms throttle_run_range[of P g _ dfsl_biquadf ins]
  by (simp add: THROTTLE_OUTPUT_MIN_def THROTTLE_OUTPUT_MAX_def)

theorem throttle_output_within_limits_witness:
  "0 \<le> THROTTLE_SLEW_RATE default_params \<and>
   THROTTLE_OUTPUT_MIN \<le> prev_output riding \<and> prev_output riding \<le> THROTTLE_OUTPUT_MAX \<and>
   fst (throttle_run default_params passthrough [(3.3, 1.6), (3.3, 0.2)] riding) = [0.4005, 0] \<and>
   list_all (\<lambda>r. THROTTLE_OUTPUT_MIN \<le> r \<and> r \<le> THROTTLE_OUTPUT_MAX)
     (fst (throttle_run default_params passthrough [(3.3, 1.6), (3.3, 0.2)] riding))"
proof -
  have a: "0 \<le> THROTTLE_SLEW_RATE default_params"
    by (simp add: default_params_def)
  have b: "THROTTLE_OUTPUT_MIN \<le> prev_output riding"
    by (simp add: riding_def THROTTLE_OUTPUT_MIN_def)
  have c: "prev_output riding \<le> THROTTLE_OUTPUT_MAX"
    by (simp add: riding_def THROTTLE_OUTPUT_MAX_def)
  have d: "fst (throttle_run default_params passthrough [(3.3, 1.6), (3.3, 0.2)] riding)
             = [0.4005, 0]"
    by (simp add: concrete_defs)
  show ?thesis
    using a b c d
      throttle_output_within_limits[OF a b c, of passthrough "[(3.3, 1.6), (3.3, 0.2)]"]
    unfolding list_all_iff by blast
qed

text \<open>
  C10. A call during the startup sequence (\<open>startup_count < THROTTLE_START_TIME\<close>, the
  deadtime and the averaging alike) and a call that restarts the startup sequence return
  exactly zero, whatever the input voltage.
\<close>

theorem throttle_zero_during_calibration:
  "in_startup P g \<or> reenters_deadtime P dfsl_biquadf vref raw_voltage g \<Longrightarrow>
   fst (throttle_process P dfsl_biquadf vref raw_voltage g) = 0"
  by (auto simp: throttle_process_startup throttle_process_reenter)

theorem throttle_zero_during_calibration_witness:
  "in_startup default_params power_up \<and>
   fst (throttle_process default_params passthrough 3.3 3.0 power_up) = 0 \<and>
   reenters_deadtime default_params passthrough 3.3 0.2 riding \<and>
   fst (throttle_process default_params passthrough 3.3 0.2 riding) = 0"
proof -
  have a: "in_startup default_params power_up"
    by (simp add: concrete_defs)
  have b: "reenters_deadtime default_params passthrough 3.3 0.2 riding"
    by (simp add: concrete_defs)
  show ?thesis
    using a b
      throttle_zero_during_calibration[of default_params power_up passthrough "3.3" "3.0"]
      throttle_zero_during_calibration[of default_params riding passthrough "3.3" "0.2"]
    by blast
qed

text \<open>
  C5. In a call that goes through the regular processing: while the latch is off the
  returned command is zero, unless the clamped command reaches the upper threshold, which
  turns the latch on and lets the command through to the rate limiter; while the latch
  is on the clamped command goes through to the rate limiter, unless it is at or below
  the lower threshold, which turns the latch off and makes the returned command zero.
  Hence over every run of such calls whose clamped commands all lie strictly between the
  two thresholds, the latch after each call is the latch before the run. The last output
  is not negative and the slew rate is not negative, as on every run from power-up.
\<close>

theorem throttle_hysteresis_gate:
  assumes "0 \<le> THROTTLE_SLEW_RATE P" and "0 \<le> prev_output g"
  shows "(regular_call P f vref raw g \<longrightarrow>
          (let c = clamped_cmd P f vref raw g;
               r = fst (throttle_process P f vref raw g);
               latch = state (sThrottle (snd (throttle_process P f vref raw g)))
           in if state (sThrottle g) = 0
              then (if c \<ge> THROTTLE_HYST_HIGH P
                    then latch = 1 \<and> r = throttle_slew P (prev_output g) c
                    else latch = 0 \<and> r = 0)
              else (if c \<le> THROTTLE_HYST_LOW P
                    then latch = 0 \<and> r = 0
                    else latch = state (sThrottle g) \<and> r = throttle_slew P (prev_output g) c)))
       \<and> (between_thresholds P f ins g \<longrightarrow>
            (\<forall>s \<in> set (latch_trace P f ins g). s = state (sThrottle g)))"
  using hyst_step[OF _ assms, of f vref raw] hyst_quiet_run[of P f ins g] by blast

theorem throttle_hysteresis_gate_witness:
  "0 \<le> THROTTLE_SLEW_RATE default_params \<and> 0 \<le> prev_output coasting \<and> 0 \<le> prev_output riding
   \<and> regular_call default_params passthrough 3.3 0.9 coasting
   \<and> fst (throttle_process default_params passthrough 3.3 0.9 coasting) = 0
   \<and> state (sThrottle (snd (throttle_process default_params passthrough 3.3 0.9 coasting))) = 0
   \<and> regular_call default_params passthrough 3.3 1.6 coasting
   \<and> fst (throttle_process default_params passthrough 3.3 1.6 coasting) = 0.0005
   \<and> state (sThrottle (snd (throttle_process default_params passthrough 3.3 1.6 coasting))) = 1
   \<and> regular_call default_params passthrough 3.3 0.86 riding
   \<and> fst (throttle_process default_params passthrough 3.3 0.86 riding) = 0
   \<and> state (sThrottle (snd (throttle_process default_params passthrough 3.3 0.86 riding))) = 0
   \<and> regular_call default_params passthrough 3.3 0.9 riding
   \<and> fst (throttle_process default_params passthrough 3.3 0.9 riding) = 1 / 27
   \<and> state (sThrottle (snd (throttle_process default_params passthrough 3.3 0.9 riding))) = 1
   \<and> between_thresholds default_params passthrough [(3.3, 0.9), (3.3, 0.91), (3.3, 0.89)] riding
   \<and> list_all (\<lambda>s. s = 1)
        (latch_trace default_params passthrough [(3.3, 0.9), (3.3, 0.91), (3.3, 0.89)] riding)
   \<and> between_thresholds default_params passthrough [(3.3, 0.9), (3.3, 0.91), (3.3, 0.89)] coasting
   \<and> list_all (\<lambda>s. s = 0)
        (latch_trace default_params passthrough [(3.3, 0.9), (3.3, 0.91), (3.3, 0.89)] coasting)"
proof -
  let ?ins = "[(3.3, 0.9), (3.3, 0.91), (3.3, 0.89)] :: (real \<times> real) list"
  have a: "0 \<le> THROTTLE_SLEW_RATE default_params" by (simp add: default_params_def)
  have b: "0 \<le> prev_output coasting" by (simp add: coasting_def)
  have c: "0 \<le> prev_output riding" by (simp add: riding_def)
  have r1: "regular_call default_params passthrough 3.3 0.9 coasting" by (simp add: concrete_defs)
  have r2: "regular_call default_params passthrough 3.3 1.6 coasting" by (simp add: concrete_defs)
  have r3: "regular_call default_params passthrough 3.3 0.86 riding" by (simp add: concrete_defs)
  have r4: "regular_call default_params passthrough 3.3 0.9 riding" by (simp add: concrete_defs)
  have q1: "between_thresholds default_params passthrough ?ins riding" by (simp add: concrete_defs)
  have q2: "between_thresholds default_params passthrough ?ins coasting" by (simp add: concrete_defs)
  have c1: "clamped_cmd default_params passthrough 3.3 0.9 coasting = 1 / 27" by (simp add: concrete_defs)
  have c2: "clamped_cmd default_params passthrough 3.3 1.6 coasting = 5 / 9" by (simp add: concrete_defs)
  have c3: "clamped_cmd default_params passthrough 3.3 0.86 riding = 1 / 135" by (simp add: concrete_defs)
  have c4: "clamped_cmd default_params passthrough 3.3 0.9 riding = 1 / 27" by (simp add: concrete_defs)
  have s1: "state (sThrottle coasting) = 0" "prev_output coasting = 0" by (simp_all add: coasting_def)
  have s2: "state (sThrottle riding) = 1" "prev_output riding = 0.4" by (simp_all add: riding_def)
  have p: "THROTTLE_HYST_LOW default_params = 0.025" "THROTTLE_HYST_HIGH default_params = 0.05"
    "THROTTLE_SLEW_RATE default_params = 0.0005"
    by (simp_all add: default_params_def)
  note h1 = throttle_hysteresis_gate[OF a b, of passthrough "3.3" "0.9" ?ins]
  note h2 = throttle_hysteresis_gate[OF a b, of passthrough "3.3" "1.6" ?ins]
  note h3 = throttle_hysteresis_gate[OF a c, of passthrough "3.3" "0.86" ?ins]
  note h4 = throttle_hysteresis_gate[OF a c, of passthrough "3.3" "0.9" ?ins]
  have t1: "fst (throttle_process default_params passthrough 3.3 0.9 coasting) = 0
     \<and> state (sThrottle (snd (throttle_process default_params passthrough 3.3 0.9 coasting))) = 0"
    using h1[THEN conjunct1, rule_format, OF r1] unfolding Let_def c1 s1 p by simp
  have t2: "fst (throttle_process default_params passthrough 3.3 1.6 coasting) = 0.0005
     \<and> state (sThrottle (snd (throttle_process default_params passthrough 3.3 1.6 coasting))) = 1"
    using h2[THEN conjunct1, rule_format, OF r2] unfolding Let_def c2 s1 p
    by (simp add: throttle_slew_def p)
  have t3: "fst (throttle_process default_params passthrough 3.3 0.86 riding) = 0
     \<and> state (sThrottle (snd (throttle_process default_params passthrough 3.3 0.86 riding))) = 0"
    using h3[THEN conjunct1, rule_format, OF r3] unfolding Let_def c3 s2 p by simp
  have t4: "fst (throttle_process default_params passthrough 3.3 0.9 riding) = 1 / 27
     \<and> state (sThrottle (snd (throttle_process default_params passthrough 3.3 0.9 riding))) = 1"
    using h4[THEN conjunct1, rule_format, OF r4] unfolding Let_def c4 s2 p
    by (simp add: throttle_slew_def p)
  have t5: "list_all (\<lambda>s. s = 1) (latch_trace default_params passthrough ?ins riding)"
    using h4[THEN conjunct2, rule_format, OF q1] unfolding list_all_iff s2 by blast
  have t6: "list_all (\<lambda>s. s = 0) (latch_trace default_params passthrough ?ins coasting)"
    using h1[THEN conjunct2, rule_format, OF q2] unfolding list_all_iff s1 by blast
  show ?thesis
    using a b c r1 r2 r3 r4 q1 q2 t1 t2 t3 t4 t5 t6 by simp
qed

subsection \<open>Rate limit\<close>

text \<open>
  C6. For two consecutive calls that both go through the regular processing, the second
  returned command exceeds the first by at most \<open>THROTTLE_SLEW_RATE\<close>; there is no
  limit on the way down: a gated command that is not more than the slew rate above the
  first returned command, however far below it, is returned as it is; and each returned
  command is the stored last output after its call.
\<close>

theorem throttle_slew_limit:
  assumes "regular_call P f v1 x1 g" and "throttle_process P f v1 x1 g = (r1, g1)"
    and "regular_call P f v2 x2 g1" and "throttle_process P f v2 x2 g1 = (r2, g2)"
  shows "r2 \<le> r1 + THROTTLE_SLEW_RATE P
       \<and> (gated_cmd P f v2 x2 g1 \<le> r1 + THROTTLE_SLEW_RATE P \<longrightarrow> r2 = gated_cmd P f v2 x2 g1)
       \<and> prev_output g1 = r1 \<and> prev_output g2 = r2"
proof -
  have p1: "prev_output g1 = r1" using regular_result(2)[OF assms(1)] assms(2) by simp
  have p2: "prev_output g2 = r2" using regular_result(2)[OF assms(3)] assms(4) by simp
  have r2: "r2 = throttle_slew P r1 (gated_cmd P f v2 x2 g1)"
    using regular_result(1)[OF assms(3)] assms(4) p1 by simp
  show ?thesis using p1 p2 unfolding r2 by (simp add: throttle_slew_def Let_def)
qed

theorem throttle_slew_limit_witness:
  "regular_call default_params passthrough 3.3 1.6 riding
   \<and> throttle_process default_params passthrough 3.3 1.6 riding =
       (0.4005, riding\<lparr>Throttle_filt := \<lparr>X = 1.6, Y = 1.6\<rparr>, prev_output := 0.4005\<rparr>)
   \<and> regular_call default_params passthrough 3.3 0.9
        (riding\<lparr>Throttle_filt := \<lparr>X = 1.6, Y = 1.6\<rparr>, prev_output := 0.4005\<rparr>)
   \<and> throttle_process default_params passthrough 3.3 0.9
        (riding\<lparr>Throttle_filt := \<lparr>X = 1.6, Y = 1.6\<rparr>, prev_output := 0.4005\<rparr>) =
       (1 / 27, riding\<lparr>Throttle_filt := \<lparr>X = 0.9, Y = 0.9\<rparr>, prev_output := 1 / 27\<rparr>)
   \<and> gated_cmd default_params passthrough 3.3 0.9
        (riding\<lparr>Throttle_filt := \<lparr>X = 1.6, Y = 1.6\<rparr>, prev_output := 0.4005\<rparr>) = 1 / 27
   \<and> (1 / 27 :: real) \<le> 0.4005 + THROTTLE_SLEW_RATE default_params
   \<and> prev_output (riding\<lparr>Throttle_filt := \<lparr>X = 0.9, Y = 0.9\<rparr>, prev_output := 1 / 27\<rparr>) = 1 / 27"
proof -
  let ?g1 = "riding\<lparr>Throttle_filt := \<lparr>X = 1.6, Y = 1.6\<rparr>, prev_output := 0.4005\<rparr>"
  let ?g2 = "riding\<lparr>Throttle_filt := \<lparr>X = 0.9, Y = 0.9\<rparr>, prev_output := 1 / 27\<rparr>"
  have r1: "regular_call default_params passthrough 3.3 1.6 riding" by (simp add: concrete_defs)
  have e1: "throttle_process default_params passthrough 3.3 1.6 riding = (0.4005, ?g1)"
    by (simp add: concrete_defs)
  have r2: "regular_call default_params passthrough 3.3 0.9 ?g1" by (simp add: concrete_defs)
  have e2: "throttle_process default_params passthrough 3.3 0.9 ?g1 = (1 / 27, ?g2)"
    by (simp add: concrete_defs)
  have g: "gated_cmd default_params passthrough 3.3 0.9 ?g1 = 1 / 27" by (simp add: concrete_defs)
  show ?thesis
    using throttle_slew_limit[OF r1 e1 r2 e2] r1 e1 r2 e2 g by simp
qed

subsection \<open>A new maximum\<close>

text \<open>
  C8, as amended. In a call after the calibration has completed
  (\<open>startup_count > THROTTLE_START_TIME\<close>), on a channel whose bounds are in order
  (\<open>min < max\<close>, as every calibration leaves them), when the filtered input exceeds
  \<open>max\<close> by more than the guard margin: \<open>max\<close> becomes the filtered input and the scale
  factor \<open>1 / (max - min)\<close>; the startup counter and \<open>min\<close> are unchanged, so the
  calibration does not restart; the call then goes on with the regular processing, where
  the command is clipped to \<open>THROTTLE_OUTPUT_MAX\<close> and the hysteresis sets the latch
  from it; the returned command is the gated command after the rate limiter, and it is
  the stored last output after the call; the filter has made its step. Nothing else
  changes.
\<close>

theorem throttle_new_max_frame:
  assumes "THROTTLE_START_TIME P < startup_count (sThrottle g)"
    and "0 \<le> THROTTLE_RANGE_LIMIT P"
    and "thr_min (sThrottle g) < thr_max (sThrottle g)"
    and "filtered f raw g > thr_max (sThrottle g) + THROTTLE_RANGE_LIMIT P"
  shows "sThrottle (snd (throttle_process P f vref raw g)) =
           (sThrottle g)\<lparr>thr_max := filtered f raw g,
                         scale_factor := 1 / (filtered f raw g - thr_min (sThrottle g)),
                         state := state (snd (throttle_hyst P THROTTLE_OUTPUT_MAX (sThrottle g)))\<rparr>
       \<and> fst (throttle_process P f vref raw g) =
           throttle_slew P (prev_output g)
             (fst (throttle_hyst P THROTTLE_OUTPUT_MAX (sThrottle g)))
       \<and> prev_output (snd (throttle_process P f vref raw g)) =
           fst (throttle_process P f vref raw g)
       \<and> Throttle_filt (snd (throttle_process P f vref raw g)) =
           f ((Throttle_filt g)\<lparr>X := raw\<rparr>)"
proof -
  define y where "y = filtered f raw g"
  define thr where "thr = sThrottle g"
  have cal: "throttle_calibrate P vref thr = thr"
    using assms(1) by (simp add: throttle_calibrate_def thr_def)
  have ygt: "thr_min thr < y" using assms(2,3,4) by (simp add: y_def thr_def)
  have reg: "regular_call P f vref raw g"
    using assms(1,2) ygt
    by (simp add: regular_call_def reenters_deadtime_def in_startup_def throttle_below_min_def
        cal[unfolded thr_def] y_def thr_def)
  have nm: "throttle_new_max P y thr = thr\<lparr>thr_max := y, scale_factor := 1 / (y - thr_min thr)\<rparr>"
    using assms(4) by (simp add: throttle_new_max_def y_def thr_def Let_def)
  have c: "clamped_cmd P f vref raw g = THROTTLE_OUTPUT_MAX"
    using ygt
    by (simp add: clamped_cmd_def Let_def cal[unfolded thr_def] nm[unfolded thr_def y_def]
        throttle_cmd_def throttle_clip_def THROTTLE_OUTPUT_MAX_def THROTTLE_OUTPUT_MIN_def y_def thr_def)
  have s: "sThrottle (snd (throttle_process P f vref raw g)) =
           (sThrottle g)\<lparr>thr_max := filtered f raw g,
                         scale_factor := 1 / (filtered f raw g - thr_min (sThrottle g)),
                         state := state (snd (throttle_hyst P THROTTLE_OUTPUT_MAX (sThrottle g)))\<rparr>"
    unfolding regular_result(3)[OF reg] c
    by (simp add: cal[unfolded thr_def] nm[unfolded thr_def y_def] throttle_hyst_def)
  have gc: "gated_cmd P f vref raw g = fst (throttle_hyst P THROTTLE_OUTPUT_MAX (sThrottle g))"
    unfolding gated_hyst c
    by (simp add: cal[unfolded thr_def] nm[unfolded thr_def y_def] throttle_hyst_def)
  have r: "fst (throttle_process P f vref raw g) =
           throttle_slew P (prev_output g) (fst (throttle_hyst P THROTTLE_OUTPUT_MAX (sThrottle g)))"
    unfolding regular_result(1)[OF reg] gc ..
  have fl: "Throttle_filt (snd (throttle_process P f vref raw g)) = f ((Throttle_filt g)\<lparr>X := raw\<rparr>)"
    by (simp add: throttle_process_regular[OF reg] Let_def)
  show ?thesis using s r regular_result(2)[OF reg] fl by simp
qed

text \<open>
  C8 as stated fails: on a calibrated channel with the latch off and the last output at
  zero, an input of 2.3 V against a maximum of 2.2 V and a margin of 0.05 V also turns the
  latch on and moves the last output.
\<close>

theorem throttle_new_max_turns_latch_on:
  "thr_max (sThrottle coasting) + THROTTLE_RANGE_LIMIT default_params
     < filtered passthrough 2.3 coasting
   \<and> state (sThrottle (snd (throttle_process default_params passthrough 3.3 2.3 coasting))) = 1
   \<and> state (sThrottle coasting) = 0
   \<and> prev_output (snd (throttle_process default_params passthrough 3.3 2.3 coasting)) = 0.0005
   \<and> prev_output coasting = 0
   \<and> sThrottle (snd (throttle_process default_params passthrough 3.3 2.3 coasting))
       \<noteq> (sThrottle coasting)\<lparr>thr_max := 2.3, scale_factor := 1 / (2.3 - 0.85)\<rparr>"
  by (simp add: concrete_defs)

theorem throttle_new_max_frame_witness:
  "THROTTLE_START_TIME default_params < startup_count (sThrottle coasting)
   \<and> 0 \<le> THROTTLE_RANGE_LIMIT default_params
   \<and> thr_min (sThrottle coasting) < thr_max (sThrottle coasting)
   \<and> filtered passthrough 2.3 coasting > thr_max (sThrottle coasting) + THROTTLE_RANGE_LIMIT default_params
   \<and> sThrottle (snd (throttle_process default_params passthrough 3.3 2.3 coasting)) =
       \<lparr>startup_count = 1001, thr_min = 0.85, thr_max = 2.3, scale_factor = 1 / 1.45, state = 1\<rparr>
   \<and> fst (throttle_process default_params passthrough 3.3 2.3 coasting) = 0.0005
   \<and> prev_output (snd (throttle_process default_params passthrough 3.3 2.3 coasting)) = 0.0005
   \<and> Throttle_filt (snd (throttle_process default_params passthrough 3.3 2.3 coasting))
       = \<lparr>X = 2.3, Y = 2.3\<rparr>"
proof -
  have a: "THROTTLE_START_TIME default_params < startup_count (sThrottle coasting)" by (simp add: concrete_defs)
  have b: "0 \<le> THROTTLE_RANGE_LIMIT default_params" by (simp add: concrete_defs)
  have c: "thr_min (sThrottle coasting) < thr_max (sThrottle coasting)" by (simp add: concrete_defs)
  have d: "filtered passthrough 2.3 coasting > thr_max (sThrottle coasting) + THROTTLE_RANGE_LIMIT default_params"
    by (simp add: concrete_defs)
  have e: "(sThrottle coasting)\<lparr>thr_max := filtered passthrough 2.3 coasting,
                         scale_factor := 1 / (filtered passthrough 2.3 coasting - thr_min (sThrottle coasting)),
                         state := state (snd (throttle_hyst default_params THROTTLE_OUTPUT_MAX (sThrottle coasting)))\<rparr>
     = \<lparr>startup_count = 1001, thr_min = 0.85, thr_max = 2.3, scale_factor = 1 / 1.45, state = 1\<rparr>"
    by (simp add: concrete_defs)
  have f: "throttle_slew default_params (prev_output coasting)
             (fst (throttle_hyst default_params THROTTLE_OUTPUT_MAX (sThrottle coasting))) = 0.0005"
    by (simp add: concrete_defs)
  have h: "passthrough ((Throttle_filt coasting)\<lparr>X := 2.3\<rparr>) = \<lparr>X = 2.3, Y = 2.3\<rparr>"
    by (simp add: concrete_defs)
  show ?thesis
    using throttle_new_max_frame[OF a b c d, of "3.3"] a b c d unfolding e f h by simp
qed

subsection \<open>The calibration at concrete inputs\<close>

text \<open>
  C3. The code at the scenario of the claim, with the macro values of \<open>default_params\<close>,
  the filter output equal to its input, a supply reference of 2.92 V (so that the maximum
  is 2.2 V) and the channel at power-up, fed 1.0 V: the first 499 calls leave the
  accumulator at zero, the 500th call already adds its sample, and after 1000 calls the
  accumulator holds 501 samples; the next call divides by 500, finds 1.002 above 1.0 and
  replaces it by the default 0.85, so that the scale factor is \<open>1 / 1.35\<close> and a
  following 1.5 V gives a clamped command of \<open>13 / 27\<close>, about 0.4815.
\<close>

theorem throttle_startup_scenario_trace:
  "(let g499 = snd (throttle_run default_params passthrough (replicate 499 (2.92, 1)) power_up);
        g500 = snd (throttle_run default_params passthrough (replicate 500 (2.92, 1)) power_up);
        g1000 = snd (throttle_run default_params passthrough (replicate 1000 (2.92, 1)) power_up);
        g1001 = snd (throttle_run default_params passthrough (replicate 1001 (2.92, 1)) power_up)
    in thr_min (sThrottle g499) = 0
     \<and> thr_min (sThrottle g500) = 1
     \<and> sThrottle g1000 =
         \<lparr>startup_count = 1000, thr_min = 501, thr_max = 0, scale_factor = 0, state = 0\<rparr>
     \<and> sThrottle g1001 =
         \<lparr>startup_count = 1001, thr_min = 0.85, thr_max = 2.2, scale_factor = 1 / 1.35, state = 1\<rparr>
     \<and> clamped_cmd default_params passthrough 2.92 1.5 g1001 = 13 / 27)"
proof -
  define g499 where "g499 = snd (throttle_run default_params passthrough (replicate 499 (2.92, 1)) power_up)"
  define g500 where "g500 = snd (throttle_run default_params passthrough (replicate 500 (2.92, 1)) power_up)"
  define g1000 where "g1000 = snd (throttle_run default_params passthrough (replicate 1000 (2.92, 1)) power_up)"
  define g1001 where "g1001 = snd (throttle_run default_params passthrough (replicate 1001 (2.92, 1)) power_up)"
  have a: "thr_min (sThrottle g499) = 0"
    unfolding g499_def
    using startup_run_passthrough[of power_up 499 default_params "2.92" 1]
    by (simp add: default_params_def power_up_def)
  have b: "thr_min (sThrottle g500) = 1"
    unfolding g500_def
    using startup_run_passthrough[of power_up 500 default_params "2.92" 1]
    by (simp add: default_params_def power_up_def)
  have c: "sThrottle g1000 =
         \<lparr>startup_count = 1000, thr_min = 501, thr_max = 0, scale_factor = 0, state = 0\<rparr>"
    and p: "prev_output g1000 = 0"
    unfolding g1000_def
    using startup_run_passthrough[of power_up 1000 default_params "2.92" 1]
    by (simp_all add: default_params_def power_up_def)
  have s: "g1001 = snd (throttle_process default_params passthrough 2.92 1 g1000)"
    unfolding g1001_def g1000_def
    using throttle_run_replicate_Suc[of default_params passthrough 1000 "(2.92, 1)" power_up]
    by simp
  have d: "sThrottle g1001 =
         \<lparr>startup_count = 1001, thr_min = 0.85, thr_max = 2.2, scale_factor = 1 / 1.35, state = 1\<rparr>"
    unfolding s by (simp add: concrete_defs c p)
  have e: "clamped_cmd default_params passthrough 2.92 1.5 g1001 = 13 / 27"
    by (simp add: concrete_defs d)
  show ?thesis
    using a b c d e unfolding Let_def g499_def g500_def g1000_def g1001_def by simp
qed

text \<open>
  C7. The code at a restart of the calibration, from power-up with the same macro values
  and filter: 1001 calls at 0.9 V calibrate the minimum to 0.9018; a call at 0.8 V is
  below it by more than the margin of 0.05, returns zero and sets the startup counter to
  zero, but leaves the old minimum in the accumulator; after 1001 more calls at 0.8 V the
  new minimum is \<open>(0.9018 + 501 * 0.8) / 500 = 0.8034036\<close>, not the average 0.8 of the
  new samples.
\<close>

theorem throttle_recalibration_trace:
  "(let g1 = snd (throttle_run default_params passthrough (replicate 1001 (2.92, 0.9)) power_up);
        g2 = snd (throttle_process default_params passthrough 2.92 0.8 g1);
        g3 = snd (throttle_run default_params passthrough (replicate 1001 (2.92, 0.8)) g2)
    in startup_count (sThrottle g1) = 1001
     \<and> thr_min (sThrottle g1) = 0.9018
     \<and> reenters_deadtime default_params passthrough 2.92 0.8 g1
     \<and> fst (throttle_process default_params passthrough 2.92 0.8 g1) = 0
     \<and> startup_count (sThrottle g2) = 0
     \<and> thr_min (sThrottle g2) = 0.9018
     \<and> startup_count (sThrottle g3) = 1001
     \<and> thr_min (sThrottle g3) = 0.8034036)"
proof -
  define g0 where "g0 = snd (throttle_run default_params passthrough (replicate 1000 (2.92, 0.9)) power_up)"
  define g1 where "g1 = snd (throttle_run default_params passthrough (replicate 1001 (2.92, 0.9)) power_up)"
  define g2 where "g2 = snd (throttle_process default_params passthrough 2.92 0.8 g1)"
  define g25 where "g25 = snd (throttle_run default_params passthrough (replicate 1000 (2.92, 0.8)) g2)"
  define g3 where "g3 = snd (throttle_run default_params passthrough (replicate 1001 (2.92, 0.8)) g2)"
  have a: "sThrottle g0 =
         \<lparr>startup_count = 1000, thr_min = 450.9, thr_max = 0, scale_factor = 0, state = 0\<rparr>"
    and pa: "prev_output g0 = 0"
    unfolding g0_def
    using startup_run_passthrough[of power_up 1000 default_params "2.92" "0.9"]
    by (simp_all add: default_params_def power_up_def)
  have s1: "g1 = snd (throttle_process default_params passthrough 2.92 0.9 g0)"
    unfolding g1_def g0_def
    using throttle_run_replicate_Suc[of default_params passthrough 1000 "(2.92, 0.9)" power_up]
    by simp
  have b: "sThrottle g1 =
         \<lparr>startup_count = 1001, thr_min = 0.9018, thr_max = 2.2, scale_factor = 1 / 1.2982, state = 0\<rparr>"
    and pb: "prev_output g1 = 0"
    unfolding s1 by (simp_all add: concrete_defs a pa)
  have re: "reenters_deadtime default_params passthrough 2.92 0.8 g1"
    by (simp add: concrete_defs b)
  have r0: "fst (throttle_process default_params passthrough 2.92 0.8 g1) = 0"
    by (simp add: concrete_defs b)
  have c: "sThrottle g2 =
         \<lparr>startup_count = 0, thr_min = 0.9018, thr_max = 2.2, scale_factor = 1 / 1.2982, state = 0\<rparr>"
    and pc: "prev_output g2 = 0"
    unfolding g2_def by (simp_all add: concrete_defs b pb)
  have d: "sThrottle g25 =
         \<lparr>startup_count = 1000, thr_min = 401.7018, thr_max = 2.2, scale_factor = 1 / 1.2982, state = 0\<rparr>"
    and pd: "prev_output g25 = 0"
    unfolding g25_def
    using startup_run_passthrough[of g2 1000 default_params "2.92" "0.8"]
    by (simp_all add: default_params_def c pc)
  have s3: "g3 = snd (throttle_process default_params passthrough 2.92 0.8 g25)"
    unfolding g3_def g25_def
    using throttle_run_replicate_Suc[of default_params passthrough 1000 "(2.92, 0.8)" g2]
    by simp
  have e: "startup_count (sThrottle g3) = 1001" "thr_min (sThrottle g3) = 0.8034036"
    unfolding s3 by (simp_all add: concrete_defs d pd)
  show ?thesis
    using b re r0 c e unfolding Let_def g1_def[symmetric] g2_def[symmetric] g3_def[symmetric]
    by simp
qed

section \<open>Properties of \<open>throttle_pas_process\<close>\<close>

lemmas pas_defs = throttle_pas_process_def throttle_pas_thr_output_def pas_current_reading_def
  pas_update_def pas_step_claimed_def board_pins_def pedal_high_def pedal_low_def pedalling_def
  default_params_def throttle_clip_def THROTTLE_OUTPUT_MIN_def THROTTLE_OUTPUT_MAX_def Let_def

lemma throttle_clip_min_max:
  "throttle_clip c = min THROTTLE_OUTPUT_MAX (max THROTTLE_OUTPUT_MIN c)"
  by (simp add: throttle_clip_def THROTTLE_OUTPUT_MIN_def THROTTLE_OUTPUT_MAX_def Let_def)

lemma pas_update_cases:
  "pas_update P level pas =
           (if level \<noteq> last_reading pas then
              (if level = 1 then
                 pas\<lparr>last_reading := level,
                     filtered_speed := real (unat (time_counter pas)) / 1000 * PAS_FILTER P
                                       + filtered_speed pas * (1 - PAS_FILTER P),
                     time_counter := 0\<rparr>
               else pas\<lparr>last_reading := level\<rparr>)
            else pas\<lparr>time_counter := time_counter pas + 1\<rparr>)"
  by (simp add: pas_update_def Let_def)

text \<open>
  What a call for channel 1 or 2 does with the reading of lines 189 to 196: a reading that
  differs from the last one is stored, and when it is 1 the filtered value becomes
  \<open>(time_counter / 1000) * W + filtered * (1 - W)\<close> and the counter is reset; a reading
  equal to the last one increments the counter. The local \<^verbatim>\<open>thr_output\<close> ends as
  \<open>filtered * scale_factor\<close> clamped to \<open>[0.00, 0.99]\<close>.
\<close>

lemma throttle_pas_process_step:
  assumes "pas_current_reading pins io thrnum = Some level"
  shows "throttle_pas_process P pins io thrnum pas =
           (if level \<noteq> last_reading pas then
              (if level = 1 then
                 pas\<lparr>last_reading := level,
                     filtered_speed := real (unat (time_counter pas)) / 1000 * PAS_FILTER P
                                       + filtered_speed pas * (1 - PAS_FILTER P),
                     time_counter := 0\<rparr>
               else pas\<lparr>last_reading := level\<rparr>)
            else pas\<lparr>time_counter := time_counter pas + 1\<rparr>)
       \<and> throttle_pas_thr_output P pins io thrnum pas =
           Some (min THROTTLE_OUTPUT_MAX (max THROTTLE_OUTPUT_MIN
                  (filtered_speed (throttle_pas_process P pins io thrnum pas)
                     * pas_scale_factor (throttle_pas_process P pins io thrnum pas))))
       \<and> THROTTLE_OUTPUT_MIN \<le> the (throttle_pas_thr_output P pins io thrnum pas)
       \<and> the (throttle_pas_thr_output P pins io thrnum pas) \<le> THROTTLE_OUTPUT_MAX"
proof -
  define pas1 where "pas1 = pas_update P level pas"
  have a: "throttle_pas_process P pins io thrnum pas = pas1"
    using assms by (simp add: throttle_pas_process_def pas1_def)
  have b: "throttle_pas_thr_output P pins io thrnum pas
             = Some (throttle_clip (filtered_speed pas1 * pas_scale_factor pas1))"
    using assms by (simp add: throttle_pas_thr_output_def pas1_def Let_def)
  have c: "THROTTLE_OUTPUT_MIN \<le> throttle_clip (filtered_speed pas1 * pas_scale_factor pas1)"
    "throttle_clip (filtered_speed pas1 * pas_scale_factor pas1) \<le> THROTTLE_OUTPUT_MAX"
    using throttle_clip_range[of "filtered_speed pas1 * pas_scale_factor pas1"]
    by (simp_all add: THROTTLE_OUTPUT_MIN_def THROTTLE_OUTPUT_MAX_def)
  show ?thesis
    unfolding a b using c
    by (simp add: throttle_clip_min_max pas1_def pas_update_cases)
qed

text \<open>
  Channel 2, whose pin is bit 0: a falling edge changes only the last reading; a rising
  edge after 7 periods, with \<open>W = 0.25\<close>, filters \<open>7 / 1000\<close> where the step of the
  specification filters \<open>1 / 7\<close>.
\<close>

lemma throttle_pas_channel2_edges:
  "pas_current_reading board_pins pedal_low 2 = Some 0
   \<and> last_reading pedalling = 1
   \<and> throttle_pas_process default_params board_pins pedal_low 2 pedalling
       = \<lparr>last_reading = 0, time_counter = 7, filtered_speed = 0.5, pas_scale_factor = 1\<rparr>
   \<and> pas_step_claimed default_params 0 pedalling
       = \<lparr>last_reading = 0, time_counter = 0, filtered_speed = 23 / 56, pas_scale_factor = 1\<rparr>
   \<and> throttle_pas_process default_params board_pins pedal_low 2 pedalling
       \<noteq> pas_step_claimed default_params 0 pedalling
   \<and> pas_current_reading board_pins pedal_high 2 = Some 1
   \<and> throttle_pas_process default_params board_pins pedal_high 2 (pedalling\<lparr>last_reading := 0\<rparr>)
       = \<lparr>last_reading = 1, time_counter = 0, filtered_speed = 1507 / 4000, pas_scale_factor = 1\<rparr>
   \<and> pas_step_claimed default_params 1 (pedalling\<lparr>last_reading := 0\<rparr>)
       = \<lparr>last_reading = 1, time_counter = 0, filtered_speed = 23 / 56, pas_scale_factor = 1\<rparr>"
  by (simp add: pas_defs)

text \<open>
  Channel 1, whose pin is bit 5: the reading is the masked byte, 0 or 32 and never 1, so
  the test of line 202 fails on every level change and the filtered value never moves.
\<close>

lemma pas_channel1_reading_never_one:
  "pas_current_reading board_pins io 1 \<noteq> Some 1"
proof -
  have "\<not> bit (ucast (ADC_I_VBUS_THR1_PORT_IDR io AND push_bit 5 (1 :: 32 word)) :: 8 word) 0"
    by (simp add: bit_simps)
  moreover have "bit (1 :: 8 word) 0" by simp
  ultimately have "(ucast (ADC_I_VBUS_THR1_PORT_IDR io AND push_bit 5 (1 :: 32 word)) :: 8 word) \<noteq> 1"
    by metis
  then show ?thesis by (simp add: pas_current_reading_def board_pins_def)
qed

lemma pas_channel1_never_filters:
  "filtered_speed (throttle_pas_process P board_pins io 1 pas) = filtered_speed pas"
proof -
  obtain level where l: "pas_current_reading board_pins io 1 = Some level"
    by (simp add: pas_current_reading_def)
  have "level \<noteq> 1" using pas_channel1_reading_never_one[of io] l by simp
  then show ?thesis by (simp add: throttle_pas_process_def l pas_update_cases)
qed

text \<open>
  C4. The code at a rising edge of channel 1, seven periods after the last change, with
  \<open>W = 0.25\<close>, a filtered speed of 0.5 and the pins of the board: the reading is 32; the
  call stores it as the last reading and leaves the filtered speed at 0.5 and the counter
  at 7, where the step of the claim gives \<open>(1 / 7) * W + 0.5 * (1 - W) = 23 / 56\<close> and a
  counter of zero. At the same edge on channel 2 the reading is 1, the filtered speed is
  updated and the counter is reset.
\<close>

theorem throttle_pas_channel1_rising_edge:
  "pas_current_reading board_pins pedal_low 1 = Some 0
   \<and> pas_current_reading board_pins pedal_high 1 = Some 32
   \<and> throttle_pas_process default_params board_pins pedal_high 1 (pedalling\<lparr>last_reading := 0\<rparr>)
       = \<lparr>last_reading = 32, time_counter = 7, filtered_speed = 0.5, pas_scale_factor = 1\<rparr>
   \<and> pas_step_claimed default_params 32 (pedalling\<lparr>last_reading := 0\<rparr>)
       = \<lparr>last_reading = 32, time_counter = 0, filtered_speed = 23 / 56, pas_scale_factor = 1\<rparr>
   \<and> pas_current_reading board_pins pedal_high 2 = Some 1
   \<and> throttle_pas_process default_params board_pins pedal_high 2 (pedalling\<lparr>last_reading := 0\<rparr>)
       = \<lparr>last_reading = 1, time_counter = 0, filtered_speed = 1507 / 4000, pas_scale_factor = 1\<rparr>"
  by (simp add: pas_defs)

section \<open>Properties of the entry points\<close>

lemma bench_sel:
  "FOC_RampGen bench_collaborators = bench_ramp"
  "HALL_IncAngle bench_collaborators = bench_hall_tick"
  "HALL_GetAngleF bench_collaborators = hall_angle"
  "HALL_GetSpeedF bench_collaborators = hall_speed"
  "HALL_GetState bench_collaborators = hall_state"
  "CORDIC_CalcSinCos bench_collaborators = (\<lambda>x. (sin (pi * x), cos (pi * x)))"
  "ADC_InjSeqComplete bench_collaborators = (\<lambda>h. h)"
  "ADC_GetCurrent bench_collaborators = (\<lambda>ch h. phase_currents h ch)"
  "FOC_Ipark bench_collaborators = bench_ipark"
  "FOC_SVM bench_collaborators = bench_svm"
  "PWM_SetDutyF bench_collaborators = (\<lambda>a b c h. h\<lparr>pwm_duties := (a, b, c)\<rparr>)"
  "LIVE_AssemblePacket bench_collaborators = (\<lambda>s h. h\<lparr>live_packets := live_packets h + 1\<rparr>)"
  "GPIO_Low bench_collaborators = bench_led False"
  "GPIO_High bench_collaborators = bench_led True"
  "ADC_RegSeqComplete bench_collaborators = (\<lambda>h. h)"
  "THROTTLE_Process bench_collaborators
     = (\<lambda>h. h\<lparr>throttle_command := throttle_clip (throttle_raw h)\<rparr>)"
  "THROTTLE_GetCommand bench_collaborators = throttle_command"
  "WDT_Feed bench_collaborators = (\<lambda>h. h\<lparr>wdt_feeds := wdt_feeds h + 1\<rparr>)"
  "USB_Data_Comm_OneByte_Check bench_collaborators = (\<lambda>h. h)"
  "LIVE_SendPacket bench_collaborators = (\<lambda>h. h)"
  by (simp_all add: bench_collaborators_def)

lemma bench_globals_sel:
  "DBG_RampAngle bench_globals = 1 / 2"
  "DBG_RampIncrement bench_globals = 0"
  "DBG_Flags bench_globals = 0"
  "Mctrl bench_globals = \<lparr>ThrottleCommand = 1 / 2\<rparr>"
  "Mpid_Id bench_globals = bench_pid"
  "Mpid_Iq bench_globals = bench_pid"
  "led_timer bench_globals = 0"
  "periph bench_globals = bench_periph"
  by (simp_all add: bench_globals_def)

subsection \<open>The slow period\<close>

lemma MAIN_AppTimerISR_result:
  "(let s' = MAIN_AppTimerISR E s;
        n = led_timer s + 1;
        hw1 = (if n = 500 then GPIO_Low E LED_PORT GLED_PIN (periph s) else periph s);
        hw2 = (if n \<ge> 1000 then GPIO_High E LED_PORT GLED_PIN hw1 else hw1)
    in periph s' = THROTTLE_Process E (ADC_RegSeqComplete E hw2)
     \<and> ThrottleCommand (Mctrl s') = THROTTLE_GetCommand E (periph s')
     \<and> led_timer s' = (if n \<ge> 1000 then 0 else n))"
  by (simp add: MAIN_AppTimerISR_def Let_def)

lemma main_loop_body_periph:
  "periph (main_loop_body E s)
     = LIVE_SendPacket E (USB_Data_Comm_OneByte_Check E (WDT_Feed E (periph s)))"
  by (simp add: main_loop_body_def Let_def)

text \<open>
  C9, as amended. On every slow period \<open>MAIN_AppTimerISR\<close> counts the period, switches the
  status indicator off when the count reaches 500 and on when it reaches 1000, where the
  count restarts (one blink in 1000 periods), completes the slow conversions, advances
  the throttle conditioner and publishes its command as the shared throttle command. It
  does not feed the watchdog: every turn of the background loop of \<open>main\<close> does.
\<close>

theorem app_timer_period:
  "(let s' = MAIN_AppTimerISR E s;
        n = led_timer s + 1;
        hw1 = (if n = 500 then GPIO_Low E LED_PORT GLED_PIN (periph s) else periph s);
        hw2 = (if n \<ge> 1000 then GPIO_High E LED_PORT GLED_PIN hw1 else hw1)
    in periph s' = THROTTLE_Process E (ADC_RegSeqComplete E hw2)
     \<and> ThrottleCommand (Mctrl s') = THROTTLE_GetCommand E (periph s')
     \<and> led_timer s' = (if n \<ge> 1000 then 0 else n)
     \<and> periph (main_loop_body E s)
         = LIVE_SendPacket E (USB_Data_Comm_OneByte_Check E (WDT_Feed E (periph s))))"
  using MAIN_AppTimerISR_result[of E s] main_loop_body_periph[of E s]
  by (simp add: Let_def)

text \<open>
  C9 as stated fails: on the bench at rest, a slow period publishes the command and leaves
  both the count of watchdog feeds and the status indicator as they were; a turn of the
  background loop feeds the watchdog.
\<close>

theorem app_timer_feeds_no_watchdog:
  "wdt_feeds (periph (MAIN_AppTimerISR bench_collaborators bench_globals))
      = wdt_feeds (periph bench_globals)
   \<and> green_led (periph (MAIN_AppTimerISR bench_collaborators bench_globals))
      = green_led (periph bench_globals)
   \<and> ThrottleCommand (Mctrl (MAIN_AppTimerISR bench_collaborators bench_globals)) = 1 / 2
   \<and> wdt_feeds (periph (main_loop_body bench_collaborators bench_globals))
      = wdt_feeds (periph bench_globals) + 1"
proof -
  define s' where "s' = MAIN_AppTimerISR bench_collaborators bench_globals"
  note r = MAIN_AppTimerISR_result[of bench_collaborators bench_globals,
      unfolded Let_def bench_sel bench_globals_sel, folded s'_def]
  have a: "periph s' = bench_periph\<lparr>throttle_command := 1 / 2\<rparr>"
    using r
    by (simp add: bench_periph_def throttle_clip_def THROTTLE_OUTPUT_MIN_def
        THROTTLE_OUTPUT_MAX_def Let_def word_le_nat_alt)
  have b: "ThrottleCommand (Mctrl s') = 1 / 2"
    using r a by simp
  have c: "periph (main_loop_body bench_collaborators bench_globals)
             = bench_periph\<lparr>wdt_feeds := wdt_feeds bench_periph + 1\<rparr>"
    by (simp add: main_loop_body_periph bench_sel bench_globals_sel)
  show ?thesis
    unfolding s'_def[symmetric] a b c bench_globals_sel by simp
qed

subsection \<open>The fast period\<close>

lemma MAIN_MotorISR_result:
  "(let s' = MAIN_MotorISR E s;
        hw1 = HALL_IncAngle E (periph s);
        hw2 = ADC_InjSeqComplete E hw1;
        ramp = FOC_RampGen E (DBG_RampAngle s) (DBG_RampIncrement s);
        sc = CORDIC_CalcSinCos E (ramp * 2 - 1);
        v = FOC_Ipark E 0.75 0 (fst sc) (snd sc);
        d = FOC_SVM E (fst v) (snd v);
        hw3 = PWM_SetDutyF E (fst d) (fst (snd d)) (snd (snd d)) hw2
    in Timestamp s' = Timestamp s + 1
     \<and> DBG_RampAngle s' = ramp
     \<and> RotorAngle (Mobv s') = HALL_GetAngleF E hw1
     \<and> RotorSpeed_eHz (Mobv s') = HALL_GetSpeedF E hw1
     \<and> HallState (Mobv s') = HALL_GetState E hw1
     \<and> iA (Mobv s') = ADC_GetCurrent E ADC_IA hw2
     \<and> iB (Mobv s') = ADC_GetCurrent E ADC_IB hw2
     \<and> iC (Mobv s') = ADC_GetCurrent E ADC_IC hw2
     \<and> (Clarke_Alpha (Mfoc s'), Clarke_Beta (Mfoc s')) = v
     \<and> (tA (Mpwm s'), tB (Mpwm s'), tC (Mpwm s')) = d
     \<and> DAC1_DHR12LD s' = ucast (float_to_uint16 E (65535 * fst d))
                           + push_bit 16 (ucast (float_to_uint16 E (65535 * fst (snd d))))
     \<and> periph s' = LIVE_AssemblePacket E (s'\<lparr>periph := hw3\<rparr>) hw3
     \<and> Mpid_Id s' = Mpid_Id s \<and> Mpid_Iq s' = Mpid_Iq s \<and> Mctrl s' = Mctrl s)"
  by (simp add: MAIN_MotorISR_def Let_def case_prod_beta)

text \<open>
  C2, as amended. On every fast period \<open>MAIN_MotorISR\<close> increments the timestamp, advances
  the debug ramp and the rotor estimator's tick, stores the estimator's angle, speed and
  state and the three measured phase currents in the observations, and then, open loop,
  applies the inverse rotating-frame transform to the fixed vector \<open>(0.75, 0)\<close> at the
  angle of the debug ramp, runs the modulator on the result, shows two duties on the DAC
  and writes the three duty fractions to the PWM outputs, before it assembles the
  telemetry. The two regulators and the published torque reference are neither read nor
  written, and the modulation does not depend on the currents or on the rotor estimate.
\<close>

theorem motor_isr_period:
  "(let s' = MAIN_MotorISR E s;
        hw1 = HALL_IncAngle E (periph s);
        hw2 = ADC_InjSeqComplete E hw1;
        ramp = FOC_RampGen E (DBG_RampAngle s) (DBG_RampIncrement s);
        sc = CORDIC_CalcSinCos E (ramp * 2 - 1);
        v = FOC_Ipark E 0.75 0 (fst sc) (snd sc);
        d = FOC_SVM E (fst v) (snd v);
        hw3 = PWM_SetDutyF E (fst d) (fst (snd d)) (snd (snd d)) hw2
    in Timestamp s' = Timestamp s + 1
     \<and> DBG_RampAngle s' = ramp
     \<and> RotorAngle (Mobv s') = HALL_GetAngleF E hw1
     \<and> RotorSpeed_eHz (Mobv s') = HALL_GetSpeedF E hw1
     \<and> HallState (Mobv s') = HALL_GetState E hw1
     \<and> iA (Mobv s') = ADC_GetCurrent E ADC_IA hw2
     \<and> iB (Mobv s') = ADC_GetCurrent E ADC_IB hw2
     \<and> iC (Mobv s') = ADC_GetCurrent E ADC_IC hw2
     \<and> (Clarke_Alpha (Mfoc s'), Clarke_Beta (Mfoc s')) = v
     \<and> (tA (Mpwm s'), tB (Mpwm s'), tC (Mpwm s')) = d
     \<and> DAC1_DHR12LD s' = ucast (float_to_uint16 E (65535 * fst d))
                           + push_bit 16 (ucast (float_to_uint16 E (65535 * fst (snd d))))
     \<and> periph s' = LIVE_AssemblePacket E (s'\<lparr>periph := hw3\<rparr>) hw3
     \<and> Mpid_Id s' = Mpid_Id s \<and> Mpid_Iq s' = Mpid_Iq s \<and> Mctrl s' = Mctrl s)"
  using MAIN_MotorISR_result[of E s] by simp

text \<open>
  C2 as stated fails: on the bench at rest, with the throttle command at one half and no
  current, the current loop of section 4.4 gives the modulation vector \<open>(0, 101 / 2000)\<close>
  and moves the integrator and the previous error of the quadrature regulator, while
  \<open>MAIN_MotorISR\<close> modulates \<open>(3 / 4, 0)\<close>, writes the duties \<open>(1, 0, 0)\<close> and leaves the
  regulator as it was.
\<close>

theorem motor_isr_runs_no_current_loop:
  "(let s' = MAIN_MotorISR bench_collaborators bench_globals
    in iA (Mobv s') = 0 \<and> iB (Mobv s') = 0 \<and> RotorAngle (Mobv s') = 1 / 2
     \<and> ThrottleCommand (Mctrl s') = 1 / 2
     \<and> (Clarke_Alpha (Mfoc s'), Clarke_Beta (Mfoc s')) = (3 / 4, 0)
     \<and> fst (current_loop_claimed bench_collaborators s') = (0, 101 / 2000)
     \<and> Mpid_Iq s' = bench_pid
     \<and> snd (snd (current_loop_claimed bench_collaborators s'))
         = bench_pid\<lparr>integrator := 1 / 2000, prev_error := 1 / 2\<rparr>
     \<and> pwm_duties (periph s') = (1, 0, 0))"
proof -
  define s' where "s' = MAIN_MotorISR bench_collaborators bench_globals"
  note r = MAIN_MotorISR_result[of bench_collaborators bench_globals,
      unfolded Let_def bench_sel bench_globals_sel, folded s'_def, simplified]
  have obs: "iA (Mobv s') = 0" "iB (Mobv s') = 0" "RotorAngle (Mobv s') = 1 / 2"
    using r by (simp_all add: bench_hall_tick_def bench_periph_def bench_ramp_def)
  have ctl: "Mctrl s' = \<lparr>ThrottleCommand = 1 / 2\<rparr>" "Mpid_Id s' = bench_pid" "Mpid_Iq s' = bench_pid"
    using r by simp_all
  have vec: "(Clarke_Alpha (Mfoc s'), Clarke_Beta (Mfoc s')) = (3 / 4, 0)"
    using r by (simp add: bench_ipark_def bench_ramp_def)
  have duty: "pwm_duties (periph s') = (1, 0, 0)"
    using r
    by (simp add: bench_ipark_def bench_ramp_def bench_svm_def bench_clamp01_def Let_def
        bench_hall_tick_def)
  have cl: "current_loop_claimed bench_collaborators s'
      = ((0, 101 / 2000), bench_pid, bench_pid\<lparr>integrator := 1 / 2000, prev_error := 1 / 2\<rparr>)"
    by (simp add: current_loop_claimed_def bench_sel obs ctl park_claimed_def PID_step_def
        bench_ipark_def bench_pid_def Let_def)
  show ?thesis
    unfolding Let_def s'_def[symmetric] using obs ctl vec duty cl by simp
qed

end
